theory Spec2Isabelle
  imports Main "HOL-Library.Sublist" "HOL-Library.Monad_Syntax"
begin

section \<open>The Anemos extension: binary resolution and type synchronisation\<close>

text \<open>
  A shallow embedding of \<^verbatim>\<open>src/extension.js\<close>. The functions that resolve the \<^verbatim>\<open>anemos\<close> binary
  and keep the generated type declarations in step with it (\<^verbatim>\<open>ensureAnemosBinary\<close>,
  \<^verbatim>\<open>getGithubReleaseUrl\<close>, \<^verbatim>\<open>downloadFile\<close>, \<^verbatim>\<open>writeResponseToFile\<close>, \<^verbatim>\<open>ensureTypesAreUpToDate\<close>,
  \<^verbatim>\<open>getAnemosToolVersion\<close>, \<^verbatim>\<open>generateAnemosTypes\<close>) are HOL functions of the same names; the
  command registration and the terminal handling of \<^verbatim>\<open>activate\<close> are left out.

  What the JavaScript does to the outside world is explicit. A \<^emph>\<open>world\<close> holds the files, the
  log of every call the extension has made to its host (child processes, the file system,
  the network, the editor's windows and the console), and the write streams it has created
  whose file is not open yet. Each function returns the world it leaves behind. What the
  outside world answers is a parameter, the \<^emph>\<open>environment\<close>: each answer may depend on the
  whole world at the moment of the call, so an environment is any host, whether it always
  answers alike or not. What a process started with \<^verbatim>\<open>execSync\<close> does to the files is one of
  these answers. An exception is a value \<open>Inl err\<close>, and a \<^verbatim>\<open>try\<close> block with its \<^verbatim>\<open>catch\<close> is a
  case distinction on the result of the block.

  Three things are taken for granted. Every call to the host comes back, with a value or
  an error: a request or a process that hangs for ever is not modelled, so the only way
  not to return is the recursion of \<^verbatim>\<open>downloadFile\<close>. The passes do not overlap: one function
  runs at a time. And the files change through the calls of the extension, through the
  write streams it has created and through the processes it starts with \<^verbatim>\<open>execSync\<close> only:
  the probe \<^verbatim>\<open>anemos --help\<close> is taken to write nothing, and nobody else writes.
\<close>

subsection \<open>Values\<close>

text \<open>A JavaScript \<^verbatim>\<open>Error\<close> object: its \<^verbatim>\<open>name\<close> and its \<^verbatim>\<open>message\<close>.\<close>

datatype error = Error (ename: string) (message: string)

text \<open>\<^verbatim>\<open>new Error(msg)\<close>.\<close>

definition new_Error :: "string \<Rightarrow> error" where
  "new_Error msg = Error ''Error'' msg"

text \<open>\<^verbatim>\<open>`${e}`\<close> for an error \<^verbatim>\<open>e\<close>, which is \<^verbatim>\<open>Error.prototype.toString\<close>.\<close>

definition error_toString :: "error \<Rightarrow> string" where
  "error_toString e =
     (if ename e = [] then message e
      else if message e = [] then ename e
      else ename e @ '': '' @ message e)"

text \<open>The values \<^verbatim>\<open>JSON.parse\<close> can return, and \<^verbatim>\<open>undefined\<close>.\<close>

datatype jsvalue =
    JUndefined
  | JNull
  | JBool bool
  | JNumber int
  | JString string
  | JArray "jsvalue list"
  | JObject "(string \<times> jsvalue) list"

text \<open>
  The property read \<^verbatim>\<open>v.version\<close>: a \<^verbatim>\<open>TypeError\<close> on \<^verbatim>\<open>null\<close> and \<^verbatim>\<open>undefined\<close>, the member of
  an object when it has one, and \<^verbatim>\<open>undefined\<close> on everything else a JSON text can denote.
\<close>

fun get_version :: "jsvalue \<Rightarrow> error + jsvalue" where
  "get_version JUndefined =
     Inl (Error ''TypeError'' ''Cannot read properties of undefined (reading 'version')'')"
| "get_version JNull =
     Inl (Error ''TypeError'' ''Cannot read properties of null (reading 'version')'')"
| "get_version (JObject members) =
     (case map_of members ''version'' of None \<Rightarrow> Inr JUndefined | Some v \<Rightarrow> Inr v)"
| "get_version _ = Inr JUndefined"

text \<open>A number in a template literal: the decimal digits of a status code.\<close>

fun string_of_nat :: "nat \<Rightarrow> string" where
  "string_of_nat n =
     (if n < 10 then [''0123456789'' ! n]
      else string_of_nat (n div 10) @ [''0123456789'' ! (n mod 10)])"

declare string_of_nat.simps [simp del]

text \<open>The double quote the source puts around paths in its command lines.\<close>

definition dq :: string where
  "dq = [CHR 0x22]"

subsection \<open>The world\<close>

text \<open>
  A path holds a directory or a file with its bytes. Permission bits are not part of a file:
  \<^verbatim>\<open>chmodSync\<close> is a call in the log.
\<close>

datatype node = Dir | File (content: string)

text \<open>One entry of the log for every call that leaves the extension's own code.\<close>

datatype event =
    ExecAsync string
  | ExecSync string
  | ExistsSync string
  | MkdirSync string
  | ChmodSync string string
  | ReadFileSync string
  | WriteFileSync string string
  | Unlink string
  | CreateWriteStream string
  | HttpsGet "string option"
  | ShowInformationMessage string "string list"
  | ShowErrorMessage string
  | ExecuteCommand string
  | ConsoleLog string

text \<open>
  \<^verbatim>\<open>fs.createWriteStream\<close> returns at once and opens its file in the background. A stream that
  nothing destroys goes on to open the file, and to write what was piped into it meanwhile,
  whatever has become of the promise that waited for it. \<open>unopened\<close> lists these streams,
  oldest first: the path of each and the bytes it will write once the file is open.
\<close>

record world =
  fs :: "string \<rightharpoonup> node"
  trace :: "event list"
  unopened :: "(string \<times> string) list"

definition emit :: "event \<Rightarrow> world \<Rightarrow> world" where
  "emit e w = w\<lparr>trace := trace w @ [e]\<rparr>"

text \<open>
  A stream gets its file open: flag \<^verbatim>\<open>w\<close> creates the file or empties it, and the stream
  writes its bytes. On a directory the open fails and nothing changes: the stream's \<^verbatim>\<open>error\<close>
  handler then calls \<^verbatim>\<open>fsUnlink\<close>, which fails on a directory as well and is ignored. That
  late call, made when the function that created the stream has long returned, is the one
  call of the extension that the log leaves out.
\<close>

definition land :: "(string \<rightharpoonup> node) \<Rightarrow> string \<times> string \<Rightarrow> (string \<rightharpoonup> node)" where
  "land files stream =
     (case files (fst stream) of
        Some Dir \<Rightarrow> files
      | _ \<Rightarrow> files(fst stream \<mapsto> File (snd stream)))"

text \<open>
  \<open>settle w\<close>: the world once every stream of \<open>unopened w\<close> has its file open. This is what
  the files are when the extension has waited for its host, for that is when the event
  loop runs; the calls that end in \<^verbatim>\<open>Sync\<close> do not wait.
\<close>

definition settle :: "world \<Rightarrow> world" where
  "settle w = w\<lparr>fs := foldl land (fs w) (unopened w), unopened := []\<rparr>"

text \<open>What a function hands back: the value it returns or the error it throws, and the world.\<close>

type_synonym 'a result = "(error + 'a) \<times> world"

subsection \<open>The environment\<close>

text \<open>
  An HTTP response as \<^verbatim>\<open>downloadFile\<close> reads it. \<open>headers_location\<close> is \<open>None\<close> when the
  header is absent, which JavaScript reads as \<^verbatim>\<open>undefined\<close>.
\<close>

record response =
  statusCode :: nat
  headers_location :: "string option"
  body :: string

text \<open>
  How piping a response into a write stream on \<open>destPath\<close> ends, that is, which event
  settles the promise of \<^verbatim>\<open>writeResponseToFile\<close>.
  \<^item> \<open>Finish\<close>: the stream finishes with the whole body written.
  \<^item> \<open>FileError\<close>: the write stream emits \<^verbatim>\<open>error\<close>. With it comes what the stream has put at
    \<open>destPath\<close> by then: \<open>None\<close> when it could not open the file, otherwise the bytes written.
  \<^item> \<open>ResponseError\<close>: the response emits \<^verbatim>\<open>error\<close> when the stream has its file open; with it
    come the bytes written so far.
  \<^item> \<open>ResponseErrorOpening\<close>: the response emits \<^verbatim>\<open>error\<close> while the stream is still opening
    its file, so that nothing is at \<open>destPath\<close> yet; with it come the bytes piped so far,
    which the stream will write once the file is open.
\<close>

datatype stream_result =
    Finish
  | FileError error "string option"
  | ResponseError error string
  | ResponseErrorOpening error string

text \<open>
  The host. \<open>os_platform\<close>, \<open>os_arch\<close> and \<open>dirname\<close> are \<^verbatim>\<open>os.platform()\<close>, \<^verbatim>\<open>os.arch()\<close> and
  \<^verbatim>\<open>__dirname\<close>; \<open>path_join\<close>, \<open>String_trim\<close>, \<open>JSON_parse\<close>, \<open>JSON_stringify\<close> and \<open>ToString\<close>
  are the library functions of those names, whose code is not part of the repository;
  \<open>toISOString_now\<close> is \<^verbatim>\<open>new Date().toISOString()\<close>. The others answer the calls that leave
  the process: whether a command succeeds and what it prints, which button the user presses
  (\<open>None\<close>: the message is dismissed), what the server answers, how a stream ends, and
  \<open>fs_fault\<close>, which makes the file system call described by an event fail.
  \<open>execSync_files\<close> is what the files are when the process started by \<^verbatim>\<open>execSync\<close> has exited:
  the tool writes the declarations, and whatever else it pleases.
\<close>

record env =
  os_platform :: string
  os_arch :: string
  dirname :: string
  path_join :: "string list \<Rightarrow> string"
  String_trim :: "string \<Rightarrow> string"
  JSON_parse :: "string \<Rightarrow> error + jsvalue"
  JSON_stringify :: "jsvalue \<Rightarrow> string"
  ToString :: "jsvalue \<Rightarrow> string"
  toISOString_now :: "world \<Rightarrow> string"
  execAsync :: "world \<Rightarrow> string \<Rightarrow> error + unit"
  execSync :: "world \<Rightarrow> string \<Rightarrow> error + string"
  execSync_files :: "world \<Rightarrow> string \<Rightarrow> (string \<rightharpoonup> node)"
  showInformationMessage :: "world \<Rightarrow> string \<Rightarrow> string list \<Rightarrow> string option"
  https_get :: "world \<Rightarrow> string option \<Rightarrow> error + response"
  pipe :: "world \<Rightarrow> response \<Rightarrow> string \<Rightarrow> stream_result"
  fs_fault :: "world \<Rightarrow> event \<Rightarrow> error option"

text \<open>The extension context: \<^verbatim>\<open>context.globalStorageUri.fsPath\<close>.\<close>

record extension_context =
  globalStorageUri_fsPath :: string

subsection \<open>\<^verbatim>\<open>getGithubReleaseUrl\<close>\<close>

definition platformId :: "env \<Rightarrow> string" where
  "platformId env =
     (if os_platform env = ''win32'' then ''windows''
      else if os_platform env = ''darwin'' then ''darwin''
      else ''linux'')"

definition archId :: "env \<Rightarrow> string" where
  "archId env =
     (if os_arch env = ''x64'' then ''amd64''
      else if os_arch env = ''arm64'' then ''arm64''
      else ''amd64'')"

definition getGithubReleaseUrl :: "env \<Rightarrow> string" where
  "getGithubReleaseUrl env =
     (let version = ''latest'' in
      ''https://github.com/ohayocorp/anemos/releases/'' @ version @
      ''/download/anemos-'' @ platformId env @ ''-'' @ archId env)"

subsection \<open>Calls that leave the process\<close>

text \<open>
  Each call is written to the log and answered by the environment, which sees the world
  as it is before the call. The calls the code waits for with \<^verbatim>\<open>await\<close> (a promisified
  \<^verbatim>\<open>exec\<close>, the consent prompt, a request, a stream, an unlink) continue in the settled world.
\<close>

definition child_process_execAsync :: "env \<Rightarrow> string \<Rightarrow> world \<Rightarrow> unit result" where
  "child_process_execAsync env command w =
     (execAsync env w command, emit (ExecAsync command) (settle w))"

definition child_process_execSync :: "env \<Rightarrow> string \<Rightarrow> world \<Rightarrow> string result" where
  "child_process_execSync env command w =
     (execSync env w command, (emit (ExecSync command) w)\<lparr>fs := execSync_files env w command\<rparr>)"

text \<open>\<^verbatim>\<open>await vscode.window.showInformationMessage(msg, ...items)\<close>.\<close>

definition window_showInformationMessage ::
  "env \<Rightarrow> string \<Rightarrow> string list \<Rightarrow> world \<Rightarrow> string option \<times> world" where
  "window_showInformationMessage env msg items w =
     (showInformationMessage env w msg items, emit (ShowInformationMessage msg items) (settle w))"

text \<open>\<^verbatim>\<open>vscode.window.showInformationMessage(msg)\<close> as a statement: the answer is dropped.\<close>

definition window_showInformationMessage_dropped :: "string \<Rightarrow> world \<Rightarrow> world" where
  "window_showInformationMessage_dropped msg w = emit (ShowInformationMessage msg []) w"

definition https_request :: "env \<Rightarrow> string option \<Rightarrow> world \<Rightarrow> response result" where
  "https_request env url w = (https_get env w url, emit (HttpsGet url) (settle w))"

text \<open>The error Node raises when a system call fails on a path.\<close>

definition system_error :: "string \<Rightarrow> string \<Rightarrow> string \<Rightarrow> error" where
  "system_error reason syscall p = Error ''Error'' (reason @ '', '' @ syscall @ '' '' @ [CHR 0x27] @ p @ [CHR 0x27])"

definition fs_existsSync :: "string \<Rightarrow> world \<Rightarrow> bool \<times> world" where
  "fs_existsSync p w = (fs w p \<noteq> None, emit (ExistsSync p) w)"

text \<open>\<^verbatim>\<open>fs.mkdirSync(p, { recursive: true })\<close>.\<close>

definition fs_mkdirSync :: "env \<Rightarrow> string \<Rightarrow> world \<Rightarrow> unit result" where
  "fs_mkdirSync env p w =
     (let w1 = emit (MkdirSync p) w in
      case fs_fault env w (MkdirSync p) of
        Some err \<Rightarrow> (Inl err, w1)
      | None \<Rightarrow>
          (case fs w p of
             Some (File _) \<Rightarrow> (Inl (system_error ''EEXIST: file already exists'' ''mkdir'' p), w1)
           | _ \<Rightarrow> (Inr (), w1\<lparr>fs := (fs w1)(p \<mapsto> Dir)\<rparr>)))"

definition fs_chmodSync :: "env \<Rightarrow> string \<Rightarrow> string \<Rightarrow> world \<Rightarrow> unit result" where
  "fs_chmodSync env p mode w =
     (let w1 = emit (ChmodSync p mode) w in
      case fs_fault env w (ChmodSync p mode) of
        Some err \<Rightarrow> (Inl err, w1)
      | None \<Rightarrow>
          (case fs w p of
             None \<Rightarrow> (Inl (system_error ''ENOENT: no such file or directory'' ''chmod'' p), w1)
           | Some _ \<Rightarrow> (Inr (), w1)))"

text \<open>\<^verbatim>\<open>fs.readFileSync(p, 'utf8')\<close>.\<close>

definition fs_readFileSync :: "env \<Rightarrow> string \<Rightarrow> world \<Rightarrow> string result" where
  "fs_readFileSync env p w =
     (let w1 = emit (ReadFileSync p) w in
      case fs_fault env w (ReadFileSync p) of
        Some err \<Rightarrow> (Inl err, w1)
      | None \<Rightarrow>
          (case fs w p of
             None \<Rightarrow> (Inl (system_error ''ENOENT: no such file or directory'' ''open'' p), w1)
           | Some Dir \<Rightarrow> (Inl (system_error ''EISDIR: illegal operation on a directory'' ''read'' p), w1)
           | Some (File text) \<Rightarrow> (Inr text, w1)))"

text \<open>\<^verbatim>\<open>fs.writeFileSync(p, data, 'utf8')\<close>.\<close>

definition fs_writeFileSync :: "env \<Rightarrow> string \<Rightarrow> string \<Rightarrow> world \<Rightarrow> unit result" where
  "fs_writeFileSync env p data w =
     (let w1 = emit (WriteFileSync p data) w in
      case fs_fault env w (WriteFileSync p data) of
        Some err \<Rightarrow> (Inl err, w1)
      | None \<Rightarrow>
          (case fs w p of
             Some Dir \<Rightarrow> (Inl (system_error ''EISDIR: illegal operation on a directory'' ''open'' p), w1)
           | _ \<Rightarrow> (Inr (), w1\<lparr>fs := (fs w1)(p \<mapsto> File data)\<rparr>)))"

text \<open>\<^verbatim>\<open>fsUnlink\<close>, the promisified \<^verbatim>\<open>fs.unlink\<close>: it removes a file and fails on anything else.\<close>

definition fsUnlink :: "env \<Rightarrow> string \<Rightarrow> world \<Rightarrow> unit result" where
  "fsUnlink env p w =
     (let w1 = emit (Unlink p) (settle w) in
      case fs_fault env w (Unlink p) of
        Some err \<Rightarrow> (Inl err, w1)
      | None \<Rightarrow>
          (case fs w1 p of
             None \<Rightarrow> (Inl (system_error ''ENOENT: no such file or directory'' ''unlink'' p), w1)
           | Some Dir \<Rightarrow> (Inl (system_error ''EISDIR: illegal operation on a directory'' ''unlink'' p), w1)
           | Some (File _) \<Rightarrow> (Inr (), w1\<lparr>fs := (fs w1)(p := None)\<rparr>)))"

subsection \<open>\<^verbatim>\<open>writeResponseToFile\<close> and \<^verbatim>\<open>downloadFile\<close>\<close>

text \<open>What a write stream that emitted \<^verbatim>\<open>error\<close> has left at \<open>destPath\<close>.\<close>

definition streamed :: "string \<Rightarrow> string option \<Rightarrow> world \<Rightarrow> world" where
  "streamed destPath written w =
     (case written of None \<Rightarrow> w | Some bytes \<Rightarrow> w\<lparr>fs := (fs w)(destPath \<mapsto> File bytes)\<rparr>)"

text \<open>
  The promise of \<^verbatim>\<open>writeResponseToFile\<close> settles in one of three handlers: \<^verbatim>\<open>finish\<close> resolves;
  the write stream's \<^verbatim>\<open>error\<close> unlinks \<open>destPath\<close>, ignores a failure of that, and rejects; the
  response's \<^verbatim>\<open>error\<close> rejects, and does nothing else: it neither destroys the write stream
  nor unlinks. So when the response fails while the stream is still opening its file, the
  promise is rejected with nothing at \<open>destPath\<close> and the stream stays among those that are
  opening.
\<close>

definition writeResponseToFile :: "env \<Rightarrow> response \<Rightarrow> string \<Rightarrow> world \<Rightarrow> unit result" where
  "writeResponseToFile env response destPath w =
     (let w1 = emit (CreateWriteStream destPath) (settle w) in
      case pipe env w response destPath of
        Finish \<Rightarrow> (Inr (), w1\<lparr>fs := (fs w1)(destPath \<mapsto> File (body response))\<rparr>)
      | FileError err written \<Rightarrow>
          (Inl err, snd (fsUnlink env destPath (streamed destPath written w1)))
      | ResponseError err written \<Rightarrow>
          (Inl err, w1\<lparr>fs := (fs w1)(destPath \<mapsto> File written)\<rparr>)
      | ResponseErrorOpening err piped \<Rightarrow>
          (Inl err, w1\<lparr>unopened := unopened w1 @ [(destPath, piped)]\<rparr>))"

text \<open>
  The \<^verbatim>\<open>catch\<close> block of \<^verbatim>\<open>downloadFile\<close>: unlink \<open>destPath\<close> if it exists, ignore a failure of
  that, and throw the error that was caught.
\<close>

definition downloadFile_catch :: "env \<Rightarrow> string \<Rightarrow> error \<Rightarrow> world \<Rightarrow> unit result" where
  "downloadFile_catch env destPath error w =
     (let (exists, w1) = fs_existsSync destPath w;
          w2 = (if exists then snd (fsUnlink env destPath w1) else w1)
      in (Inl error, w2))"

text \<open>
  \<^verbatim>\<open>downloadFile\<close> calls itself on a redirect, and nothing bounds how often: it is a partial
  function, and \<open>None\<close> is the call that never returns. The first argument of \<open>Option.bind\<close>
  is the \<^verbatim>\<open>try\<close> block, the second the \<^verbatim>\<open>catch\<close> block.
\<close>

partial_function (option) downloadFile ::
  "env \<Rightarrow> string option \<Rightarrow> string \<Rightarrow> world \<Rightarrow> unit result option" where
  "downloadFile env url destPath w =
     Option.bind
       (case https_request env url w of
          (Inl err, w1) \<Rightarrow> Some (Inl err, w1)
        | (Inr response, w1) \<Rightarrow>
            if statusCode response = 302 \<or> statusCode response = 301 then
              downloadFile env (headers_location response) destPath w1
            else if statusCode response \<noteq> 200 then
              Some (Inl (new_Error (''Failed to download: '' @ string_of_nat (statusCode response))), w1)
            else Some (writeResponseToFile env response destPath w1))
       (\<lambda>(r, w2). case r of
          Inl error \<Rightarrow> Some (downloadFile_catch env destPath error w2)
        | Inr u \<Rightarrow> Some (Inr u, w2))"

declare downloadFile.simps [code]

subsection \<open>\<^verbatim>\<open>ensureAnemosBinary\<close>\<close>

definition binaryName :: "env \<Rightarrow> string" where
  "binaryName env = (if os_platform env = ''win32'' then ''anemos.exe'' else ''anemos'')"

definition binaryPath :: "env \<Rightarrow> extension_context \<Rightarrow> string" where
  "binaryPath env ctx = path_join env [globalStorageUri_fsPath ctx, binaryName env]"

definition consent_prompt :: string where
  "consent_prompt = ''Anemos binary not found. Would you like to download it from GitHub?''"

text \<open>The error thrown when the user does not press \<^verbatim>\<open>Yes\<close>.\<close>

definition AcquisitionDeclined :: error where
  "AcquisitionDeclined = new_Error ''User did not consent to download Anemos binary.''"

text \<open>
  The \<^verbatim>\<open>try\<close> block of \<^verbatim>\<open>ensureAnemosBinary\<close>: ask for consent, create the storage directory,
  download, make the file executable.
\<close>

definition ensureAnemosBinary_try ::
  "env \<Rightarrow> extension_context \<Rightarrow> world \<Rightarrow> string result option" where
  "ensureAnemosBinary_try env ctx w =
     (let storagePath = globalStorageUri_fsPath ctx;
          (downloadChoice, w1) =
             window_showInformationMessage env consent_prompt [''Yes'', ''No''] w
      in if downloadChoice \<noteq> Some ''Yes'' then Some (Inl AcquisitionDeclined, w1)
         else
           let w2 = window_showInformationMessage_dropped
                      ''Downloading Anemos binary from GitHub...'' w1;
               (exists, w3) = fs_existsSync storagePath w2
           in case (if \<not> exists then fs_mkdirSync env storagePath w3 else (Inr (), w3)) of
                (Inl err, w4) \<Rightarrow> Some (Inl err, w4)
              | (Inr _, w4) \<Rightarrow>
                  do {
                    (d, w5) \<leftarrow> downloadFile env (Some (getGithubReleaseUrl env)) (binaryPath env ctx) w4;
                    case d of
                      Inl err \<Rightarrow> Some (Inl err, w5)
                    | Inr _ \<Rightarrow>
                        (case (if os_platform env \<noteq> ''win32''
                               then fs_chmodSync env (binaryPath env ctx) ''755'' w5
                               else (Inr (), w5)) of
                           (Inl err, w6) \<Rightarrow> Some (Inl err, w6)
                         | (Inr _, w6) \<Rightarrow>
                             Some (Inr (binaryPath env ctx),
                                   window_showInformationMessage_dropped
                                     ''Anemos binary downloaded successfully.'' w6))
                  })"

definition ensureAnemosBinary ::
  "env \<Rightarrow> extension_context \<Rightarrow> world \<Rightarrow> string result option" where
  "ensureAnemosBinary env ctx w =
     (case child_process_execAsync env (binaryName env @ '' --help'') w of
        (Inr _, w1) \<Rightarrow> Some (Inr (binaryName env), w1)
      | (Inl _, w1) \<Rightarrow>
          (let (exists, w2) = fs_existsSync (binaryPath env ctx) w1
           in if exists then Some (Inr (binaryPath env ctx), w2)
              else
                do {
                  (r, w3) \<leftarrow> ensureAnemosBinary_try env ctx w2;
                  case r of
                    Inl error \<Rightarrow>
                      Some (Inl error,
                            emit (ShowErrorMessage (''Failed to download Anemos: '' @ message error)) w3)
                  | Inr p \<Rightarrow> Some (Inr p, w3)
                }))"

subsection \<open>\<^verbatim>\<open>getAnemosToolVersion\<close> and \<^verbatim>\<open>generateAnemosTypes\<close>\<close>

text \<open>The \<^verbatim>\<open>try\<close> block of \<^verbatim>\<open>getAnemosToolVersion\<close>.\<close>

definition getAnemosToolVersion_try ::
  "env \<Rightarrow> extension_context \<Rightarrow> world \<Rightarrow> string result option" where
  "getAnemosToolVersion_try env ctx w =
     do {
       (r, w1) \<leftarrow> ensureAnemosBinary env ctx w;
       case r of
         Inl e \<Rightarrow> Some (Inl e, w1)
       | Inr anemosPath \<Rightarrow>
           (case child_process_execSync env (dq @ anemosPath @ dq @ '' --version'') w1 of
              (Inl e, w2) \<Rightarrow> Some (Inl e, w2)
            | (Inr versionOutput, w2) \<Rightarrow>
                (let version = String_trim env versionOutput
                 in Some (Inr version,
                          emit (ConsoleLog (''Detected anemos tool version: '' @ version)) w2)))
     }"

definition getAnemosToolVersion ::
  "env \<Rightarrow> extension_context \<Rightarrow> world \<Rightarrow> string result option" where
  "getAnemosToolVersion env ctx w =
     do {
       (r, w1) \<leftarrow> getAnemosToolVersion_try env ctx w;
       case r of
         Inr version \<Rightarrow> Some (Inr version, w1)
       | Inl e \<Rightarrow>
           Some (Inr ''unknown'',
                 emit (ConsoleLog (''Error getting anemos version: '' @ error_toString e)) w1)
     }"

text \<open>The \<^verbatim>\<open>try\<close> block of \<^verbatim>\<open>generateAnemosTypes\<close>.\<close>

definition generateAnemosTypes_try ::
  "env \<Rightarrow> extension_context \<Rightarrow> string \<Rightarrow> world \<Rightarrow> unit result option" where
  "generateAnemosTypes_try env ctx outputDir w =
     do {
       (r, w1) \<leftarrow> ensureAnemosBinary env ctx
                    (emit (ConsoleLog (''Generating Anemos type definitions in '' @ outputDir)) w);
       case r of
         Inl e \<Rightarrow> Some (Inl e, w1)
       | Inr anemosPath \<Rightarrow>
           (case child_process_execSync env
                   (dq @ anemosPath @ dq @ '' declarations '' @ dq @ outputDir @ dq) w1 of
              (Inl e, w2) \<Rightarrow> Some (Inl e, w2)
            | (Inr _, w2) \<Rightarrow>
                Some (Inr (), emit (ConsoleLog ''Successfully generated type definitions.'') w2))
     }"

definition generateAnemosTypes ::
  "env \<Rightarrow> extension_context \<Rightarrow> string \<Rightarrow> world \<Rightarrow> unit result option" where
  "generateAnemosTypes env ctx outputDir w =
     do {
       (r, w1) \<leftarrow> generateAnemosTypes_try env ctx outputDir w;
       case r of
         Inr u \<Rightarrow> Some (Inr u, w1)
       | Inl e \<Rightarrow>
           Some (Inl e,
                 emit (ConsoleLog (''Error generating type definitions: '' @ error_toString e)) w1)
     }"

subsection \<open>\<^verbatim>\<open>ensureTypesAreUpToDate\<close>\<close>

definition typesDir :: "env \<Rightarrow> string" where
  "typesDir env =
     path_join env [dirname env, ''node_modules'', ''anemos-typescript-plugin'', ''.anemos-types'']"

definition versionFilePath :: "env \<Rightarrow> string" where
  "versionFilePath env = path_join env [typesDir env, ''version.json'']"

text \<open>
  The inner \<^verbatim>\<open>try\<close> block: read and parse the version file and compare. \<^verbatim>\<open>!==\<close> against a
  string holds of every value that is not that string.
\<close>

definition readVersionFile :: "env \<Rightarrow> string \<Rightarrow> world \<Rightarrow> bool result" where
  "readVersionFile env currentVersion w =
     (case fs_readFileSync env (versionFilePath env) w of
        (Inl e, w1) \<Rightarrow> (Inl e, w1)
      | (Inr text, w1) \<Rightarrow>
          (case JSON_parse env text of
             Inl e \<Rightarrow> (Inl e, w1)
           | Inr versionData \<Rightarrow>
               (case get_version versionData of
                  Inl e \<Rightarrow> (Inl e, w1)
                | Inr stored \<Rightarrow>
                    (let needsUpdate = (stored \<noteq> JString currentVersion \<or> currentVersion = ''0.0.0'')
                     in (Inr needsUpdate,
                         emit (ConsoleLog
                                 (if needsUpdate
                                  then ''Types need update: current version '' @ currentVersion @
                                       '', stored version '' @ ToString env stored
                                  else ''Types are up to date (version '' @ currentVersion @ '')''))
                              w1)))))"

text \<open>The value of \<^verbatim>\<open>needsUpdate\<close> when the \<^verbatim>\<open>if (needsUpdate)\<close> is reached.\<close>

definition needsUpdate :: "env \<Rightarrow> string \<Rightarrow> world \<Rightarrow> bool \<times> world" where
  "needsUpdate env currentVersion w =
     (let (exists, w1) = fs_existsSync (versionFilePath env) w
      in if exists then
           (case readVersionFile env currentVersion w1 of
              (Inr b, w2) \<Rightarrow> (b, w2)
            | (Inl e, w2) \<Rightarrow>
                (True, emit (ConsoleLog (''Error reading version file: '' @ error_toString e)) w2))
         else (True, emit (ConsoleLog ''No version file found, will generate types.'') w1))"

text \<open>
  The body of \<^verbatim>\<open>if (needsUpdate)\<close>: generate, save the version, restart the server. What is
  saved is \<^verbatim>\<open>JSON.stringify({ version: currentVersion, generated: new Date().toISOString() })\<close>.
\<close>

definition regenerate ::
  "env \<Rightarrow> extension_context \<Rightarrow> string \<Rightarrow> world \<Rightarrow> unit result option" where
  "regenerate env ctx currentVersion w =
     do {
       (g, w1) \<leftarrow> generateAnemosTypes env ctx (typesDir env) w;
       case g of
         Inl e \<Rightarrow> Some (Inl e, w1)
       | Inr _ \<Rightarrow>
           (case fs_writeFileSync env (versionFilePath env)
                   (JSON_stringify env
                      (JObject [(''version'', JString currentVersion),
                                (''generated'', JString (toISOString_now env w1))])) w1 of
              (Inl e, w2) \<Rightarrow> Some (Inl e, w2)
            | (Inr _, w2) \<Rightarrow>
                Some (Inr (),
                      emit (ExecuteCommand ''typescript.restartTsServer'')
                        (emit (ConsoleLog (''Updated version file to '' @ currentVersion)) w2)))
     }"

text \<open>The outer \<^verbatim>\<open>try\<close> block.\<close>

definition ensureTypesAreUpToDate_try ::
  "env \<Rightarrow> extension_context \<Rightarrow> world \<Rightarrow> unit result option" where
  "ensureTypesAreUpToDate_try env ctx w =
     do {
       (r, w1) \<leftarrow> getAnemosToolVersion env ctx w;
       case r of
         Inl e \<Rightarrow> Some (Inl e, w1)
       | Inr currentVersion \<Rightarrow>
           (let (update, w2) = needsUpdate env currentVersion w1
            in if update then regenerate env ctx currentVersion w2 else Some (Inr (), w2))
     }"

definition ensureTypesAreUpToDate ::
  "env \<Rightarrow> extension_context \<Rightarrow> world \<Rightarrow> unit result option" where
  "ensureTypesAreUpToDate env ctx w =
     do {
       (r, w1) \<leftarrow> ensureTypesAreUpToDate_try env ctx w;
       case r of
         Inr u \<Rightarrow> Some (Inr u, w1)
       | Inl e \<Rightarrow>
           Some (Inr (),
                 emit (ConsoleLog (''Error ensuring types are up to date: '' @ error_toString e)) w1)
     }"

subsection \<open>Notions used in the statements\<close>

text \<open>
  The \<^verbatim>\<open>try\<close> block of \<^verbatim>\<open>downloadFile\<close> on its own, so that statements can name the error it
  throws and the world in which the \<^verbatim>\<open>catch\<close> block starts.
\<close>

definition downloadFile_try :: "env \<Rightarrow> string option \<Rightarrow> string \<Rightarrow> world \<Rightarrow> unit result option" where
  "downloadFile_try env url destPath w =
     (case https_request env url w of
        (Inl err, w1) \<Rightarrow> Some (Inl err, w1)
      | (Inr response, w1) \<Rightarrow>
          if statusCode response = 302 \<or> statusCode response = 301 then
            downloadFile env (headers_location response) destPath w1
          else if statusCode response \<noteq> 200 then
            Some (Inl (new_Error (''Failed to download: '' @ string_of_nat (statusCode response))), w1)
          else Some (writeResponseToFile env response destPath w1))"

text \<open>
  A chain of redirects: asked for \<open>url\<close> in world \<open>w\<close>, the server answers with the first
  response of the list, a 301 or a 302, and asked for its \<^verbatim>\<open>Location\<close> it answers with the
  next, and so on through the list. \<open>redirected\<close> is the world and the address at the end of
  the chain.
\<close>

fun redirect_chain :: "env \<Rightarrow> world \<Rightarrow> string option \<Rightarrow> response list \<Rightarrow> bool" where
  "redirect_chain env w url [] = True"
| "redirect_chain env w url (r # rs) =
     (https_get env w url = Inr r \<and> (statusCode r = 302 \<or> statusCode r = 301) \<and>
      redirect_chain env (emit (HttpsGet url) (settle w)) (headers_location r) rs)"

fun redirected :: "world \<Rightarrow> string option \<Rightarrow> response list \<Rightarrow> world \<times> string option" where
  "redirected w url [] = (w, url)"
| "redirected w url (r # rs) = redirected (emit (HttpsGet url) (settle w)) (headers_location r) rs"

text \<open>
  A notation for the object that \<open>regenerate\<close> serialises,
  \<^verbatim>\<open>{ version: currentVersion, generated: ... }\<close>. It abbreviates the term and defines nothing.
\<close>

abbreviation versionRecord :: "string \<Rightarrow> string \<Rightarrow> jsvalue" where
  "versionRecord currentVersion generated \<equiv>
     JObject [(''version'', JString currentVersion), (''generated'', JString generated)]"

text \<open>The calls of \<^verbatim>\<open>fs.writeFileSync\<close> in the log of a world, oldest first.\<close>

fun is_WriteFileSync :: "event \<Rightarrow> bool" where
  "is_WriteFileSync (WriteFileSync p d) = True"
| "is_WriteFileSync _ = False"

definition writeFileSync_calls :: "world \<Rightarrow> event list" where
  "writeFileSync_calls w = filter is_WriteFileSync (trace w)"

text \<open>The paths on which a write stream is still opening its file.\<close>

definition unopened_paths :: "world \<Rightarrow> string set" where
  "unopened_paths w = fst ` set (unopened w)"


text \<open>
  \<open>untouched S Q w w'\<close>: from \<open>w\<close> to \<open>w'\<close> there has been no call of \<^verbatim>\<open>writeFileSync\<close>; on a
  path outside \<open>S\<close> on which no stream was opening in \<open>w\<close>, none is opening in \<open>w'\<close>; and
  such a path holds in \<open>w'\<close> what it held in \<open>w\<close>, unless it is in \<open>Q\<close>.
\<close>

definition untouched :: "string set \<Rightarrow> string set \<Rightarrow> world \<Rightarrow> world \<Rightarrow> bool" where
  "untouched S Q w w' \<longleftrightarrow>
     writeFileSync_calls w' = writeFileSync_calls w \<and>
     (\<forall>p. p \<notin> S \<and> p \<notin> unopened_paths w \<longrightarrow>
          p \<notin> unopened_paths w' \<and> (p \<notin> Q \<longrightarrow> fs w' p = fs w p))"


text \<open>
  The version that the record on disk names: the \<^verbatim>\<open>version\<close> member of the parsed version
  file, when there is a file and it parses to something that has one.
\<close>

definition record_version :: "env \<Rightarrow> world \<Rightarrow> jsvalue option" where
  "record_version env w =
     (case fs w (versionFilePath env) of
        Some (File stored_text) \<Rightarrow>
          (case JSON_parse env stored_text of
             Inr versionData \<Rightarrow> (case get_version versionData of Inr v \<Rightarrow> Some v | Inl e \<Rightarrow> None)
           | Inl e \<Rightarrow> None)
      | _ \<Rightarrow> None)"

text \<open>
  The generated artifacts, read generously: all the files but the three paths that the
  extension writes itself, which are the version record, the cached binary and the storage
  directory.
\<close>

definition artifacts :: "env \<Rightarrow> extension_context \<Rightarrow> world \<Rightarrow> (string \<rightharpoonup> node)" where
  "artifacts env ctx w =
     (fs w)(versionFilePath env := None, binaryPath env ctx := None,
            globalStorageUri_fsPath ctx := None)"




subsection \<open>Example hosts\<close>

text \<open>
  Concrete environments on which the theorems below are instantiated: a Linux machine,
  POSIX path joining, trimming of ASCII white space, and a serialiser and parser that
  agree on version records.
\<close>

fun posix_join :: "string list \<Rightarrow> string" where
  "posix_join [] = ''.''"
| "posix_join [p] = p"
| "posix_join (p # q # ps) = p @ ''/'' @ posix_join (q # ps)"

definition ascii_space :: "char \<Rightarrow> bool" where
  "ascii_space c \<longleftrightarrow> c \<in> set [CHR 0x20, CHR 0x09, CHR 0x0A, CHR 0x0D]"

definition ascii_trim :: "string \<Rightarrow> string" where
  "ascii_trim s = rev (dropWhile ascii_space (rev (dropWhile ascii_space s)))"

fun json_member :: "string \<times> jsvalue \<Rightarrow> string" where
  "json_member (k, JString s) = dq @ k @ dq @ '':'' @ dq @ s @ dq"
| "json_member (k, _) = dq @ k @ dq @ '':null''"

fun comma_separated :: "string list \<Rightarrow> string" where
  "comma_separated [] = []"
| "comma_separated [s] = s"
| "comma_separated (s # t # ss) = s @ '','' @ comma_separated (t # ss)"

fun flat_stringify :: "jsvalue \<Rightarrow> string" where
  "flat_stringify (JObject members) = ''{'' @ comma_separated (map json_member members) @ ''}''"
| "flat_stringify (JString s) = dq @ s @ dq"
| "flat_stringify _ = ''null''"

fun plain_ToString :: "jsvalue \<Rightarrow> string" where
  "plain_ToString (JString s) = s"
| "plain_ToString JUndefined = ''undefined''"
| "plain_ToString JNull = ''null''"
| "plain_ToString _ = ''[object Object]''"

definition stamp :: string where
  "stamp = ''2026-01-01T00:00:00.000Z''"

definition record_parse :: "string \<Rightarrow> error + jsvalue" where
  "record_parse text =
     (if text = flat_stringify (versionRecord ''1.2.0'' stamp) then Inr (versionRecord ''1.2.0'' stamp)
      else if text = flat_stringify (versionRecord ''0.0.0'' stamp) then Inr (versionRecord ''0.0.0'' stamp)
      else if text = ''null'' then Inr JNull
      else Inl (Error ''SyntaxError'' ''Unexpected token in JSON''))"

text \<open>
  \<open>host\<close>: \<^verbatim>\<open>anemos\<close> is on the search path and prints version 1.2.0; nothing fails, and the
  tool finds nothing to write.
\<close>

definition host :: env where
  "host =
     \<lparr>os_platform = ''linux'', os_arch = ''x64'', dirname = ''/ext'',
      path_join = posix_join, String_trim = ascii_trim,
      JSON_parse = record_parse, JSON_stringify = flat_stringify, ToString = plain_ToString,
      toISOString_now = (\<lambda>w. stamp),
      execAsync = (\<lambda>w command. Inr ()),
      execSync = (\<lambda>w command. if suffix ''--version'' command then Inr (''1.2.0'' @ [CHR 0x0A]) else Inr []),
      execSync_files = (\<lambda>w command. fs w),
      showInformationMessage = (\<lambda>w msg items. None),
      https_get = (\<lambda>w url. Inl (new_Error ''getaddrinfo ENOTFOUND github.com'')),
      pipe = (\<lambda>w response destPath. Finish),
      fs_fault = (\<lambda>w call. None)\<rparr>"

definition ctx0 :: extension_context where
  "ctx0 = \<lparr>globalStorageUri_fsPath = ''/storage''\<rparr>"

definition start :: world where
  "start = \<lparr>fs = Map.empty, trace = [], unopened = []\<rparr>"

text \<open>\<open>legacy_host\<close>: the binary on the search path does not know \<^verbatim>\<open>--version\<close>.\<close>

definition legacy_host :: env where
  "legacy_host =
     host\<lparr>execSync := (\<lambda>w command.
             if suffix ''--version'' command then Inl (new_Error ''Command failed: anemos --version'')
             else Inr [])\<rparr>"

text \<open>\<open>unversioned_host\<close>: the binary is a placeholder build that prints \<^verbatim>\<open>0.0.0\<close>.\<close>

definition unversioned_host :: env where
  "unversioned_host =
     host\<lparr>execSync := (\<lambda>w command.
             if suffix ''--version'' command then Inr (''0.0.0'' @ [CHR 0x0A]) else Inr [])\<rparr>"

text \<open>\<open>failing_host\<close>: the binary on the search path fails whatever it is asked.\<close>

definition failing_host :: env where
  "failing_host = host\<lparr>execSync := (\<lambda>w command. Inl (new_Error ''Command failed''))\<rparr>"

text \<open>
  \<open>readonly_host\<close>: the binary works, and the file system refuses every read and every write
  of a file.
\<close>

definition readonly_host :: env where
  "readonly_host =
     host\<lparr>fs_fault := (\<lambda>w call.
             case call of
               ReadFileSync p \<Rightarrow> Some (system_error ''EACCES: permission denied'' ''open'' p)
             | WriteFileSync p d \<Rightarrow> Some (system_error ''EACCES: permission denied'' ''open'' p)
             | _ \<Rightarrow> None)\<rparr>"

text \<open>\<open>bare_host\<close>: no \<^verbatim>\<open>anemos\<close> on the search path, and the user answers \<^verbatim>\<open>No\<close>.\<close>

definition bare_host :: env where
  "bare_host =
     host\<lparr>execAsync := (\<lambda>w command. Inl (new_Error ''Command failed: anemos --help'')),
          showInformationMessage := (\<lambda>w msg items. Some ''No'')\<rparr>"

text \<open>
  \<open>mirror_host\<close>: the release address redirects twice, with a 302 and then a 301, to a
  mirror that serves the binary.
\<close>

definition mirror_host :: env where
  "mirror_host =
     host\<lparr>https_get := (\<lambda>w url.
             if url = Some (getGithubReleaseUrl host) then
               Inr \<lparr>statusCode = 302, headers_location = Some ''https://cdn.example/a'', body = []\<rparr>
             else if url = Some ''https://cdn.example/a'' then
               Inr \<lparr>statusCode = 301, headers_location = Some ''https://cdn.example/b'', body = []\<rparr>
             else if url = Some ''https://cdn.example/b'' then
               Inr \<lparr>statusCode = 200, headers_location = None, body = ''ELF-anemos''\<rparr>
             else Inr \<lparr>statusCode = 404, headers_location = None, body = ''Not Found''\<rparr>)\<rparr>"

text \<open>\<open>loop_host\<close>: every address redirects to itself.\<close>

definition loop_host :: env where
  "loop_host =
     host\<lparr>https_get := (\<lambda>w url. Inr \<lparr>statusCode = 302, headers_location = url, body = []\<rparr>)\<rparr>"

text \<open>\<open>status_host n\<close>: every request is answered with status \<open>n\<close>.\<close>

definition status_host :: "nat \<Rightarrow> env" where
  "status_host n =
     host\<lparr>https_get := (\<lambda>w url. Inr \<lparr>statusCode = n, headers_location = None, body = ''payload''\<rparr>)\<rparr>"

text \<open>
  \<open>broken_pipe_host\<close>: the server answers 200 and the connection breaks after three bytes
  have reached the file.
\<close>

definition broken_pipe_host :: env where
  "broken_pipe_host =
     (status_host 200)\<lparr>pipe := (\<lambda>w response destPath.
        ResponseError (new_Error ''aborted'') (take 3 (body response)))\<rparr>"

text \<open>
  \<open>reset_host\<close>: no \<^verbatim>\<open>anemos\<close> on the search path, the user answers \<^verbatim>\<open>Yes\<close>, the server
  answers 200, and the connection is reset before the write stream has its file open.
\<close>

definition reset_host :: env where
  "reset_host =
     (status_host 200)
       \<lparr>execAsync := (\<lambda>w command. Inl (new_Error ''Command failed: anemos --help'')),
        showInformationMessage := (\<lambda>w msg items. Some ''Yes''),
        pipe := (\<lambda>w response destPath. ResponseErrorOpening (new_Error ''aborted'') [])\<rparr>"








section \<open>Lemmas\<close>

subsection \<open>Logging and settling\<close>

lemma fs_emit [simp]: "fs (emit e w) = fs w"
  by (simp add: emit_def)

lemma trace_emit [simp]: "trace (emit e w) = trace w @ [e]"
  by (simp add: emit_def)

lemma unopened_emit [simp]: "unopened (emit e w) = unopened w"
  by (simp add: emit_def)

lemma writeFileSync_calls_emit [simp]:
  "writeFileSync_calls (emit e w) = writeFileSync_calls w @ (if is_WriteFileSync e then [e] else [])"
  by (simp add: writeFileSync_calls_def)

lemma writeFileSync_calls_fs_update [simp]:
  "writeFileSync_calls (w\<lparr>fs := files\<rparr>) = writeFileSync_calls w"
  by (simp add: writeFileSync_calls_def)

lemma writeFileSync_calls_unopened_update [simp]:
  "writeFileSync_calls (w\<lparr>unopened := streams\<rparr>) = writeFileSync_calls w"
  by (simp add: writeFileSync_calls_def)

lemma unopened_paths_fs_update [simp]: "unopened_paths (w\<lparr>fs := files\<rparr>) = unopened_paths w"
  by (simp add: unopened_paths_def)

lemma trace_settle [simp]: "trace (settle w) = trace w"
  by (simp add: settle_def)

lemma unopened_settle [simp]: "unopened (settle w) = []"
  by (simp add: settle_def)

lemma writeFileSync_calls_settle [simp]: "writeFileSync_calls (settle w) = writeFileSync_calls w"
  by (simp add: writeFileSync_calls_def)

lemma settle_idle: "unopened w = [] \<Longrightarrow> settle w = w"
  by (cases w) (simp add: settle_def)

lemma settle_idle_world [simp]:
  "settle \<lparr>fs = files, trace = t, unopened = []\<rparr> = \<lparr>fs = files, trace = t, unopened = []\<rparr>"
  by (simp add: settle_idle)

lemma unopened_start [simp]: "unopened start = []"
  by (simp add: start_def)

lemma settle_settle [simp]: "settle (settle w) = settle w"
  by (simp add: settle_idle)

lemma settle_emit [simp]: "settle (emit e w) = emit e (settle w)"
  by (simp add: settle_def emit_def)

lemma settle_trace_update [simp]: "settle (w\<lparr>trace := t\<rparr>) = (settle w)\<lparr>trace := t\<rparr>"
  by (simp add: settle_def)

lemma unopened_paths_emit [simp]: "unopened_paths (emit e w) = unopened_paths w"
  by (simp add: unopened_paths_def)

lemma unopened_paths_settle [simp]: "unopened_paths (settle w) = {}"
  by (simp add: unopened_paths_def)

lemma foldl_land_other: "p \<notin> fst ` set streams \<Longrightarrow> foldl land files streams p = files p"
  by (induction streams arbitrary: files) (auto simp: land_def split: option.splits node.splits)

lemma fs_settle_other: "p \<notin> unopened_paths w \<Longrightarrow> fs (settle w) p = fs w p"
  by (simp add: settle_def unopened_paths_def foldl_land_other)

lemma settle_one:
  "fs w p = None \<Longrightarrow> unopened w = [(p, piped)] \<Longrightarrow> fs (settle w) = (fs w)(p \<mapsto> File piped)"
  by (simp add: settle_def land_def)

subsection \<open>Unfolding \<^verbatim>\<open>downloadFile\<close>, and what each call leaves untouched\<close>

lemma downloadFile_unfold:
  "downloadFile env url destPath w =
     Option.bind (downloadFile_try env url destPath w)
       (\<lambda>(r, w2). case r of
          Inl error \<Rightarrow> Some (downloadFile_catch env destPath error w2)
        | Inr u \<Rightarrow> Some (Inr u, w2))"
  unfolding downloadFile_try_def by (rule downloadFile.simps)






lemma untouched_settle: "untouched S Q w (settle w)"
  by (simp add: untouched_def fs_settle_other)

lemma untouched_fsUnlink: "p \<in> S \<Longrightarrow> untouched S Q w (snd (fsUnlink env p w))"
  by (auto simp: fsUnlink_def Let_def untouched_def fs_settle_other unopened_paths_def
      split: option.splits node.splits)














lemma bind_result_cases:
  assumes "(f \<bind> (\<lambda>(r, w1). case r of Inl e \<Rightarrow> g e w1 | Inr v \<Rightarrow> h v w1)) = Some y"
  obtains (threw) e w1 where "f = Some (Inl e, w1)" and "g e w1 = Some y"
        | (returned) v w1 where "f = Some (Inr v, w1)" and "h v w1 = Some y"
proof -
  from assms obtain a b where f: "f = Some (a, b)"
    and rest: "(case a of Inl e \<Rightarrow> g e b | Inr v \<Rightarrow> h v b) = Some y"
    by (auto simp: bind_eq_Some_conv)
  show thesis
  proof (cases a)
    case (Inl e)
    with f rest threw show ?thesis by simp
  next
    case (Inr v)
    with f rest returned show ?thesis by simp
  qed
qed















subsection \<open>Every function returns when \<^verbatim>\<open>downloadFile\<close> does\<close>

lemma ensureAnemosBinary_try_returns:
  assumes "\<And>u d v. downloadFile env u d v \<noteq> None"
  shows "ensureAnemosBinary_try env ctx w \<noteq> None"
  by (simp add: ensureAnemosBinary_try_def Let_def case_prod_beta bind_eq_None_conv assms del: not_None_eq split_paired_Ex split: sum.split)

lemma ensureAnemosBinary_returns:
  assumes "\<And>u d v. downloadFile env u d v \<noteq> None"
  shows "ensureAnemosBinary env ctx w \<noteq> None"
  by (simp add: ensureAnemosBinary_def Let_def case_prod_beta bind_eq_None_conv
        ensureAnemosBinary_try_returns[OF assms] del: not_None_eq split_paired_Ex split: sum.split)

lemma getAnemosToolVersion_returns:
  assumes "\<And>u d v. downloadFile env u d v \<noteq> None"
  shows "getAnemosToolVersion env ctx w \<noteq> None"
  by (simp add: getAnemosToolVersion_def getAnemosToolVersion_try_def Let_def case_prod_beta
        bind_eq_None_conv ensureAnemosBinary_returns[OF assms] del: not_None_eq split_paired_Ex split: sum.split)

lemma generateAnemosTypes_returns:
  assumes "\<And>u d v. downloadFile env u d v \<noteq> None"
  shows "generateAnemosTypes env ctx outputDir w \<noteq> None"
  by (simp add: generateAnemosTypes_def generateAnemosTypes_try_def Let_def case_prod_beta
        bind_eq_None_conv ensureAnemosBinary_returns[OF assms] del: not_None_eq split_paired_Ex split: sum.split)

lemma regenerate_returns:
  assumes "\<And>u d v. downloadFile env u d v \<noteq> None"
  shows "regenerate env ctx cur w \<noteq> None"
  by (simp add: regenerate_def Let_def case_prod_beta
        bind_eq_None_conv generateAnemosTypes_returns[OF assms] del: not_None_eq split_paired_Ex split: sum.split)

lemma ensureTypesAreUpToDate_try_returns:
  assumes "\<And>u d v. downloadFile env u d v \<noteq> None"
  shows "ensureTypesAreUpToDate_try env ctx w \<noteq> None"
  by (simp add: ensureTypesAreUpToDate_try_def Let_def case_prod_beta
        bind_eq_None_conv getAnemosToolVersion_returns[OF assms] regenerate_returns[OF assms] del: not_None_eq split_paired_Ex split: sum.split)

lemma ensureTypesAreUpToDate_returns:
  assumes "\<And>u d v. downloadFile env u d v \<noteq> None"
  shows "ensureTypesAreUpToDate env ctx w \<noteq> None"
  by (simp add: ensureTypesAreUpToDate_def Let_def case_prod_beta
        bind_eq_None_conv ensureTypesAreUpToDate_try_returns[OF assms] del: not_None_eq split_paired_Ex split: sum.split)

subsection \<open>The \<^verbatim>\<open>catch\<close> block of \<^verbatim>\<open>downloadFile\<close>\<close>

text \<open>
  What the block does, and what is at \<open>destPath\<close> at the moment it throws. That moment is
  not the end of the story when a stream is still opening: see \<open>unopened\<close>.
\<close>

lemma downloadFile_catch_effect:
  "fst (downloadFile_catch env destPath e w1) = Inl e \<and>
   trace (snd (downloadFile_catch env destPath e w1)) =
     trace w1 @ ExistsSync destPath # (if fs w1 destPath = None then [] else [Unlink destPath]) \<and>
   unopened (snd (downloadFile_catch env destPath e w1)) =
     (if fs w1 destPath = None then unopened w1 else []) \<and>
   (fs (snd (downloadFile_catch env destPath e w1)) destPath = None \<or>
    fs w1 destPath \<noteq> None \<and>
    fst (fsUnlink env destPath (emit (ExistsSync destPath) w1)) \<noteq> Inr () \<and>
    fs (snd (downloadFile_catch env destPath e w1)) = fs (settle w1))"
  by (auto simp: downloadFile_catch_def fs_existsSync_def fsUnlink_def Let_def
      split: option.splits node.splits)

lemma downloadFile_rethrows:
  assumes "downloadFile_try env url destPath w = Some (Inl e, w1)"
  shows "\<exists>w'. downloadFile env url destPath w = Some (Inl e, w') \<and>
           trace w' = trace w1 @ ExistsSync destPath # (if fs w1 destPath = None then [] else [Unlink destPath]) \<and>
           unopened w' = (if fs w1 destPath = None then unopened w1 else []) \<and>
           (fs w' destPath = None \<or>
            fs w1 destPath \<noteq> None \<and>
            fst (fsUnlink env destPath (emit (ExistsSync destPath) w1)) \<noteq> Inr () \<and>
            fs w' = fs (settle w1))"
proof -
  have "downloadFile env url destPath w = Some (downloadFile_catch env destPath e w1)"
    using assms by (simp add: downloadFile_unfold)
  moreover obtain r w' where c: "downloadFile_catch env destPath e w1 = (r, w')"
    by (cases "downloadFile_catch env destPath e w1")
  ultimately show ?thesis
    using downloadFile_catch_effect[of env destPath e w1] by auto
qed

section \<open>The Resolver\<close>

text \<open>
  Claim C3. \<^verbatim>\<open>ensureAnemosBinary\<close> tries the search path, then the cache, then the download,
  and stops at the first that succeeds. When \<^verbatim>\<open>anemos --help\<close> runs, the bare binary name is
  returned and the only call made is that one: nothing touches the file system or the
  network. When it fails and a file exists at the storage path joined with the binary
  name, that path is returned after the two probes, with no prompt and no download. Only
  when both fail does the download block run, starting from the world the two probes left.
  The files are those of \<open>settle w\<close>, for the code waits for the first probe: a write stream
  that an earlier download left opening has its file by then. When there is none,
  \<open>settle w\<close> is \<open>w\<close>.
\<close>

theorem ensureAnemosBinary_first_success_wins:
  "(execAsync env w (binaryName env @ '' --help'') = Inr () \<longrightarrow>
      ensureAnemosBinary env ctx w =
        Some (Inr (binaryName env),
              (settle w)\<lparr>trace := trace w @ [ExecAsync (binaryName env @ '' --help'')]\<rparr>)) \<and>
   (execAsync env w (binaryName env @ '' --help'') = Inl e \<and>
    fs (settle w) (binaryPath env ctx) \<noteq> None \<longrightarrow>
      binaryPath env ctx = path_join env [globalStorageUri_fsPath ctx, binaryName env] \<and>
      ensureAnemosBinary env ctx w =
        Some (Inr (binaryPath env ctx),
              (settle w)\<lparr>trace := trace w @ [ExecAsync (binaryName env @ '' --help''),
                                              ExistsSync (binaryPath env ctx)]\<rparr>)) \<and>
   (execAsync env w (binaryName env @ '' --help'') = Inl e \<and>
    fs (settle w) (binaryPath env ctx) = None \<longrightarrow>
      ensureAnemosBinary env ctx w =
        ensureAnemosBinary_try env ctx
          ((settle w)\<lparr>trace := trace w @ [ExecAsync (binaryName env @ '' --help''),
                                          ExistsSync (binaryPath env ctx)]\<rparr>) \<bind>
        (\<lambda>(r, w3). case r of
           Inl error \<Rightarrow>
             Some (Inl error, emit (ShowErrorMessage (''Failed to download Anemos: '' @ message error)) w3)
         | Inr p \<Rightarrow> Some (Inr p, w3)))"
  by (simp add: ensureAnemosBinary_def child_process_execAsync_def fs_existsSync_def emit_def binaryPath_def)

text \<open>
  On \<open>host\<close> the binary is on the search path; on \<open>bare_host\<close> it is not, and a copy lies in
  the storage directory, or nothing does.
\<close>

theorem ensureAnemosBinary_first_success_wins_witness:
  "ensureAnemosBinary host ctx0 start =
     Some (Inr ''anemos'', \<lparr>fs = Map.empty, trace = [ExecAsync ''anemos --help''], unopened = []\<rparr>) \<and>
   ensureAnemosBinary bare_host ctx0 (start\<lparr>fs := [''/storage/anemos'' \<mapsto> File ''ELF-anemos'']\<rparr>) =
     Some (Inr ''/storage/anemos'',
           \<lparr>fs = [''/storage/anemos'' \<mapsto> File ''ELF-anemos''],
            trace = [ExecAsync ''anemos --help'', ExistsSync ''/storage/anemos''], unopened = []\<rparr>) \<and>
   ensureAnemosBinary bare_host ctx0 start =
     ensureAnemosBinary_try bare_host ctx0
       \<lparr>fs = Map.empty, trace = [ExecAsync ''anemos --help'', ExistsSync ''/storage/anemos''], unopened = []\<rparr> \<bind>
     (\<lambda>(r, w3). case r of
        Inl error \<Rightarrow>
          Some (Inl error, emit (ShowErrorMessage (''Failed to download Anemos: '' @ message error)) w3)
      | Inr p \<Rightarrow> Some (Inr p, w3))"
  using ensureAnemosBinary_first_success_wins[where env = host and w = start and ctx = ctx0
         and e = "new_Error ''Command failed: anemos --help''"]
    ensureAnemosBinary_first_success_wins
      [where env = bare_host and ctx = ctx0
         and w = "start\<lparr>fs := [''/storage/anemos'' \<mapsto> File ''ELF-anemos'']\<rparr>"
         and e = "new_Error ''Command failed: anemos --help''"]
    ensureAnemosBinary_first_success_wins
      [where env = bare_host and ctx = ctx0 and w = start
         and e = "new_Error ''Command failed: anemos --help''"]
  by (simp add: bare_host_def host_def ctx0_def start_def binaryName_def binaryPath_def settle_idle)

text \<open>
  Claim C6. When neither probe finds the binary and the user does not answer \<^verbatim>\<open>Yes\<close> to the
  consent prompt, \<^verbatim>\<open>ensureAnemosBinary\<close> throws the consent error, \<open>AcquisitionDeclined\<close>, and
  creates nothing: the files are those it started with, and its calls are the two probes,
  the prompt and the error message, so no \<^verbatim>\<open>mkdirSync\<close>, no request and no write stream.
  The files it started with are those of \<open>settle w\<close>, which is \<open>w\<close> unless an earlier
  download left a write stream opening.
\<close>

theorem declined_consent_creates_nothing:
  assumes "execAsync env w (binaryName env @ '' --help'') = Inl e"
    and "fs (settle w) (binaryPath env ctx) = None"
    and "showInformationMessage env
           ((settle w)\<lparr>trace := trace w @ [ExecAsync (binaryName env @ '' --help''),
                                           ExistsSync (binaryPath env ctx)]\<rparr>)
           consent_prompt [''Yes'', ''No''] \<noteq> Some ''Yes''"
  shows "ensureAnemosBinary env ctx w =
           Some (Inl AcquisitionDeclined,
                 (settle w)\<lparr>trace := trace w @
                      [ExecAsync (binaryName env @ '' --help''),
                       ExistsSync (binaryPath env ctx),
                       ShowInformationMessage consent_prompt [''Yes'', ''No''],
                       ShowErrorMessage (''Failed to download Anemos: '' @ message AcquisitionDeclined)]\<rparr>)"
  using assms
  by (simp add: ensureAnemosBinary_def child_process_execAsync_def fs_existsSync_def emit_def
        ensureAnemosBinary_try_def window_showInformationMessage_def)

theorem declined_consent_creates_nothing_witness:
  "ensureAnemosBinary bare_host ctx0 start =
     Some (Inl (Error ''Error'' ''User did not consent to download Anemos binary.''),
           \<lparr>fs = Map.empty,
            trace = [ExecAsync ''anemos --help'', ExistsSync ''/storage/anemos'',
                     ShowInformationMessage consent_prompt [''Yes'', ''No''],
                     ShowErrorMessage ''Failed to download Anemos: User did not consent to download Anemos binary.''],
            unopened = []\<rparr>)"
  using declined_consent_creates_nothing[of bare_host start "new_Error ''Command failed: anemos --help''" ctx0]
  by (simp add: bare_host_def host_def ctx0_def start_def binaryName_def binaryPath_def
        AcquisitionDeclined_def new_Error_def settle_idle)

text \<open>
  Claim C7. Whatever the platform and the architecture, the release address is the fixed
  prefix, the version token \<^verbatim>\<open>latest\<close>, and \<^verbatim>\<open>anemos-\<close> followed by the platform id and the
  architecture id. Exactly one of \<^verbatim>\<open>windows\<close>, \<^verbatim>\<open>darwin\<close>, \<^verbatim>\<open>linux\<close> occurs in it and exactly one
  of \<^verbatim>\<open>amd64\<close>, \<^verbatim>\<open>arm64\<close>, and every architecture other than \<^verbatim>\<open>x64\<close> and \<^verbatim>\<open>arm64\<close> gives \<^verbatim>\<open>amd64\<close>.
\<close>

theorem getGithubReleaseUrl_ids:
  "getGithubReleaseUrl env =
     ''https://github.com/ohayocorp/anemos/releases/'' @ ''latest'' @ ''/download/anemos-'' @
     platformId env @ ''-'' @ archId env \<and>
   length (filter (\<lambda>p. sublist p (getGithubReleaseUrl env)) [''windows'', ''darwin'', ''linux'']) = 1 \<and>
   sublist (platformId env) (getGithubReleaseUrl env) \<and>
   length (filter (\<lambda>a. sublist a (getGithubReleaseUrl env)) [''amd64'', ''arm64'']) = 1 \<and>
   sublist (archId env) (getGithubReleaseUrl env) \<and>
   (os_arch env \<noteq> ''x64'' \<and> os_arch env \<noteq> ''arm64'' \<longrightarrow> archId env = ''amd64'')"
  by (simp add: getGithubReleaseUrl_def platformId_def archId_def sublist_code)

theorem getGithubReleaseUrl_ids_witness:
  "os_arch (host\<lparr>os_arch := ''riscv64''\<rparr>) \<noteq> ''x64'' \<and>
   os_arch (host\<lparr>os_arch := ''riscv64''\<rparr>) \<noteq> ''arm64'' \<and>
   archId (host\<lparr>os_arch := ''riscv64''\<rparr>) = ''amd64'' \<and>
   getGithubReleaseUrl (host\<lparr>os_arch := ''riscv64''\<rparr>) =
     ''https://github.com/ohayocorp/anemos/releases/latest/download/anemos-linux-amd64''"
  using getGithubReleaseUrl_ids[of "host\<lparr>os_arch := ''riscv64''\<rparr>"]
  by (simp add: host_def platformId_def)

section \<open>The download\<close>

lemma reset_host_answers:
  "execAsync reset_host w c = Inl (new_Error ''Command failed: anemos --help'')"
  "showInformationMessage reset_host w m items = Some ''Yes''"
  "fs_fault reset_host w call = None"
  "os_platform reset_host = ''linux''"
  "path_join reset_host = posix_join"
  "https_get reset_host w url = Inr \<lparr>statusCode = 200, headers_location = None, body = ''payload''\<rparr>"
  "pipe reset_host w response destPath = ResponseErrorOpening (new_Error ''aborted'') []"
  "getGithubReleaseUrl reset_host =
     ''https://github.com/ohayocorp/anemos/releases/latest/download/anemos-linux-amd64''"
  by (simp_all add: reset_host_def status_host_def host_def getGithubReleaseUrl_def platformId_def
        archId_def)

lemma reset_host_download:
  assumes "fs (settle w) destPath = None"
  shows "downloadFile reset_host url destPath w =
           Some (Inl (new_Error ''aborted''),
                 (settle w)\<lparr>trace := trace w @ [HttpsGet url, CreateWriteStream destPath, ExistsSync destPath],
                             unopened := [(destPath, [])]\<rparr>)"
  using assms
  by (simp add: downloadFile_unfold downloadFile_try_def downloadFile_catch_def https_request_def
        writeResponseToFile_def fs_existsSync_def reset_host_answers emit_def)

text \<open>
  Claim C4 says that a failed download leaves no file at \<open>destPath\<close>, and the comment in the
  \<^verbatim>\<open>catch\<close> block of \<^verbatim>\<open>downloadFile\<close> says the same: clean up the partial file in case of error.
  The block does rethrow the error it caught, and it does unlink what it finds
  (\<open>downloadFile_rethrows\<close>). But it looks for the file at once, and the write stream may
  not have opened it yet. On \<open>reset_host\<close> the response fails while the stream is still
  opening. With the storage directory in place and nothing at \<open>destPath\<close>, \<^verbatim>\<open>existsSync\<close> finds
  nothing, no unlink is made, and \<^verbatim>\<open>downloadFile\<close> throws with the stream alive; when the
  stream has its file, an empty file is at \<open>destPath\<close>. So the first \<^verbatim>\<open>ensureAnemosBinary\<close>
  throws, and the second finds the empty file in the cache and returns it as the binary.
\<close>

theorem failed_download_leaves_file_behind:
  "(\<exists>w'. downloadFile reset_host (Some (getGithubReleaseUrl reset_host)) ''/storage/anemos''
                (start\<lparr>fs := [''/storage'' \<mapsto> Dir]\<rparr>) =
              Some (Inl (new_Error ''aborted''), w') \<and>
          trace w' = [HttpsGet (Some (getGithubReleaseUrl reset_host)),
                      CreateWriteStream ''/storage/anemos'', ExistsSync ''/storage/anemos''] \<and>
          fs w' ''/storage/anemos'' = None \<and>
          unopened w' = [(''/storage/anemos'', [])] \<and>
          fs (settle w') ''/storage/anemos'' = Some (File [])) \<and>
   (\<exists>w1 w2.
          ensureAnemosBinary reset_host ctx0 start = Some (Inl (new_Error ''aborted''), w1) \<and>
          trace w1 = [ExecAsync ''anemos --help'', ExistsSync ''/storage/anemos'',
                      ShowInformationMessage consent_prompt [''Yes'', ''No''],
                      ShowInformationMessage ''Downloading Anemos binary from GitHub...'' [],
                      ExistsSync ''/storage'', MkdirSync ''/storage'',
                      HttpsGet (Some (getGithubReleaseUrl reset_host)),
                      CreateWriteStream ''/storage/anemos'', ExistsSync ''/storage/anemos'',
                      ShowErrorMessage ''Failed to download Anemos: aborted''] \<and>
          fs w1 ''/storage/anemos'' = None \<and>
          ensureAnemosBinary reset_host ctx0 w1 = Some (Inr ''/storage/anemos'', w2) \<and>
          trace w2 = trace w1 @ [ExecAsync ''anemos --help'', ExistsSync ''/storage/anemos''] \<and>
          fs w2 ''/storage/anemos'' = Some (File []))"
proof -
  let ?url = "Some (getGithubReleaseUrl reset_host)"
  let ?w = "\<lparr>fs = [''/storage'' \<mapsto> Dir],
             trace = [HttpsGet ?url, CreateWriteStream ''/storage/anemos'', ExistsSync ''/storage/anemos''],
             unopened = [(''/storage/anemos'', [])]\<rparr>"
  let ?a = "\<lparr>fs = [''/storage'' \<mapsto> Dir],
             trace = [ExecAsync ''anemos --help'', ExistsSync ''/storage/anemos'',
                      ShowInformationMessage consent_prompt [''Yes'', ''No''],
                      ShowInformationMessage ''Downloading Anemos binary from GitHub...'' [],
                      ExistsSync ''/storage'', MkdirSync ''/storage'',
                      HttpsGet ?url, CreateWriteStream ''/storage/anemos'', ExistsSync ''/storage/anemos'',
                      ShowErrorMessage ''Failed to download Anemos: aborted''],
             unopened = [(''/storage/anemos'', [])]\<rparr>"
  have d: "downloadFile reset_host ?url ''/storage/anemos'' (start\<lparr>fs := [''/storage'' \<mapsto> Dir]\<rparr>) =
             Some (Inl (new_Error ''aborted''), ?w)"
    by (simp add: reset_host_download start_def)
  have s: "fs (settle ?w) ''/storage/anemos'' = Some (File [])"
    by (simp add: settle_def land_def)
  have one: "ensureAnemosBinary reset_host ctx0 start = Some (Inl (new_Error ''aborted''), ?a)"
    by (simp add: ensureAnemosBinary_def ensureAnemosBinary_try_def child_process_execAsync_def
          fs_existsSync_def fs_mkdirSync_def window_showInformationMessage_def
          window_showInformationMessage_dropped_def Let_def binaryPath_def binaryName_def ctx0_def
          reset_host_answers reset_host_download start_def emit_def new_Error_def)
  have two: "ensureAnemosBinary reset_host ctx0 ?a =
               Some (Inr ''/storage/anemos'',
                     \<lparr>fs = [''/storage'' \<mapsto> Dir, ''/storage/anemos'' \<mapsto> File []],
                      trace = trace ?a @ [ExecAsync ''anemos --help'', ExistsSync ''/storage/anemos''],
                      unopened = []\<rparr>)"
    by (simp add: ensureAnemosBinary_def child_process_execAsync_def fs_existsSync_def
          binaryPath_def binaryName_def ctx0_def reset_host_answers settle_def land_def emit_def)
  from d s have "\<exists>w'. downloadFile reset_host ?url ''/storage/anemos'' (start\<lparr>fs := [''/storage'' \<mapsto> Dir]\<rparr>) =
              Some (Inl (new_Error ''aborted''), w') \<and>
          trace w' = [HttpsGet ?url, CreateWriteStream ''/storage/anemos'', ExistsSync ''/storage/anemos''] \<and>
          fs w' ''/storage/anemos'' = None \<and>
          unopened w' = [(''/storage/anemos'', [])] \<and>
          fs (settle w') ''/storage/anemos'' = Some (File [])"
    by (intro exI[of _ ?w]) simp
  moreover from one two have "\<exists>w1 w2.
          ensureAnemosBinary reset_host ctx0 start = Some (Inl (new_Error ''aborted''), w1) \<and>
          trace w1 = [ExecAsync ''anemos --help'', ExistsSync ''/storage/anemos'',
                      ShowInformationMessage consent_prompt [''Yes'', ''No''],
                      ShowInformationMessage ''Downloading Anemos binary from GitHub...'' [],
                      ExistsSync ''/storage'', MkdirSync ''/storage'',
                      HttpsGet ?url, CreateWriteStream ''/storage/anemos'', ExistsSync ''/storage/anemos'',
                      ShowErrorMessage ''Failed to download Anemos: aborted''] \<and>
          fs w1 ''/storage/anemos'' = None \<and>
          ensureAnemosBinary reset_host ctx0 w1 = Some (Inr ''/storage/anemos'', w2) \<and>
          trace w2 = trace w1 @ [ExecAsync ''anemos --help'', ExistsSync ''/storage/anemos''] \<and>
          fs w2 ''/storage/anemos'' = Some (File [])"
    by (intro exI[of _ ?a] exI[of _ "\<lparr>fs = [''/storage'' \<mapsto> Dir, ''/storage/anemos'' \<mapsto> File []],
                      trace = trace ?a @ [ExecAsync ''anemos --help'', ExistsSync ''/storage/anemos''],
                      unopened = []\<rparr>"]) simp
  ultimately show ?thesis
    by blast
qed

text \<open>
  Claim C5. On a 301 or a 302 \<^verbatim>\<open>downloadFile\<close> asks again at the \<^verbatim>\<open>Location\<close> of the response,
  and no count limits how often. For a chain of redirects of any length that ends at a
  response with status 200 whose body streams to the end, the download returns normally,
  the file at \<open>destPath\<close> holds the body of that last response, no stream is left opening,
  and the calls made are one request per response followed by the opening of the write
  stream.
\<close>

theorem downloadFile_redirects_then_200:
  assumes "redirect_chain env w url rs"
    and "redirected w url rs = (wn, un)"
    and "https_get env wn un = Inr r"
    and "statusCode r = 200"
    and "pipe env (emit (HttpsGet un) (settle wn)) r destPath = Finish"
  shows "\<exists>w'. downloadFile env url destPath w = Some (Inr (), w') \<and>
           fs w' destPath = Some (File (body r)) \<and>
           unopened w' = [] \<and>
           trace w' = trace wn @ [HttpsGet un, CreateWriteStream destPath]"
  using assms
proof (induction rs arbitrary: w url)
  case Nil
  then show ?case
    by (simp add: downloadFile_unfold downloadFile_try_def https_request_def writeResponseToFile_def)
next
  case (Cons a rs)
  from Cons.prems have step: "https_get env w url = Inr a" "statusCode a = 302 \<or> statusCode a = 301"
    and rest: "redirect_chain env (emit (HttpsGet url) (settle w)) (headers_location a) rs"
       "redirected (emit (HttpsGet url) (settle w)) (headers_location a) rs = (wn, un)"
    by simp_all
  from Cons.IH[OF rest Cons.prems(3,4,5)] obtain w' where
    "downloadFile env (headers_location a) destPath (emit (HttpsGet url) (settle w)) = Some (Inr (), w')"
    "fs w' destPath = Some (File (body r))"
    "unopened w' = []"
    "trace w' = trace wn @ [HttpsGet un, CreateWriteStream destPath]"
    by blast
  with step show ?case
    by (simp add: downloadFile_unfold[of env url] downloadFile_try_def https_request_def)
qed

text \<open>On \<open>mirror_host\<close> a 302 and a 301 lead to the mirror that serves the file.\<close>

theorem downloadFile_redirects_then_200_witness:
  "redirect_chain mirror_host start (Some (getGithubReleaseUrl host))
     [\<lparr>statusCode = 302, headers_location = Some ''https://cdn.example/a'', body = []\<rparr>,
      \<lparr>statusCode = 301, headers_location = Some ''https://cdn.example/b'', body = []\<rparr>] \<and>
   (\<exists>w'. downloadFile mirror_host (Some (getGithubReleaseUrl host)) ''/storage/anemos'' start =
            Some (Inr (), w') \<and>
          fs w' ''/storage/anemos'' = Some (File ''ELF-anemos'') \<and>
          trace w' = [HttpsGet (Some (getGithubReleaseUrl host)),
                      HttpsGet (Some ''https://cdn.example/a''),
                      HttpsGet (Some ''https://cdn.example/b''),
                      CreateWriteStream ''/storage/anemos''])"
proof -
  let ?rs = "[\<lparr>statusCode = 302, headers_location = Some ''https://cdn.example/a'', body = []\<rparr>,
      \<lparr>statusCode = 301, headers_location = Some ''https://cdn.example/b'', body = []\<rparr>]"
  let ?wn = "\<lparr>fs = Map.empty, trace = [HttpsGet (Some (getGithubReleaseUrl host)),
                      HttpsGet (Some ''https://cdn.example/a'')], unopened = []\<rparr>"
  let ?r = "\<lparr>statusCode = 200, headers_location = None, body = ''ELF-anemos''\<rparr>"
  have u: "getGithubReleaseUrl host = ''https://github.com/ohayocorp/anemos/releases/latest/download/anemos-linux-amd64''"
    by (simp add: getGithubReleaseUrl_def platformId_def archId_def host_def)
  have c: "redirect_chain mirror_host start (Some (getGithubReleaseUrl host)) ?rs"
    by (simp add: mirror_host_def u)
  have e: "redirected start (Some (getGithubReleaseUrl host)) ?rs = (?wn, Some ''https://cdn.example/b'')"
    by (simp add: start_def emit_def settle_idle)
  have g: "https_get mirror_host ?wn (Some ''https://cdn.example/b'') = Inr ?r"
    by (simp add: mirror_host_def u)
  have s: "statusCode ?r = 200" by simp
  have p: "pipe mirror_host (emit (HttpsGet (Some ''https://cdn.example/b'')) (settle ?wn)) ?r ''/storage/anemos'' = Finish"
    by (simp add: mirror_host_def host_def)
  from downloadFile_redirects_then_200[OF c e g s p] c show ?thesis
    by auto
qed

text \<open>
  The other side of the missing bound: on \<open>loop_host\<close>, where every address redirects to
  itself, \<^verbatim>\<open>downloadFile\<close> never returns.
\<close>

lemma downloadFile_loop_aux:
  "downloadFile env url destPath w = Some y \<Longrightarrow> env \<noteq> loop_host"
proof (induct rule: downloadFile.raw_induct[rotated 1, consumes 1])
  case (1 df env url destPath w y)
  show ?case
  proof
    assume l: "env = loop_host"
    from 1(2) obtain t where
      "df loop_host url destPath (emit (HttpsGet url) (settle w)) = Some t"
      by (auto simp: l bind_eq_Some_conv https_request_def loop_host_def host_def)
    from 1(1)[OF this] show False by simp
  qed
qed

lemma downloadFile_redirect_loop_never_returns:
  "downloadFile loop_host url destPath w = None"
  using downloadFile_loop_aux[of loop_host url destPath w] by (cases "downloadFile loop_host url destPath w") auto

text \<open>
  Claim C10. A response is written to \<open>destPath\<close> only when its status is exactly 200. For
  every other status that is not a 301 or a 302, among them 204, 307 and 308,
  \<^verbatim>\<open>downloadFile\<close> throws \<^verbatim>\<open>Failed to download:\<close> with the status and opens no write stream:
  its calls are the request and the clean-up, and no stream is left opening. Afterwards
  nothing is at \<open>destPath\<close>, unless something was there before the call and unlinking it
  failed, in which case the files are as they were. What was there before the call is
  what \<open>settle w\<close> holds, which is \<open>w\<close> unless an earlier download left a stream opening.
\<close>

theorem downloadFile_writes_only_on_200:
  assumes "https_get env w url = Inr response"
    and "statusCode response \<noteq> 200" and "statusCode response \<noteq> 301" and "statusCode response \<noteq> 302"
  shows "\<exists>w'. downloadFile env url destPath w =
                Some (Inl (new_Error (''Failed to download: '' @ string_of_nat (statusCode response))), w') \<and>
           trace w' = trace w @ HttpsGet url # ExistsSync destPath #
                        (if fs (settle w) destPath = None then [] else [Unlink destPath]) \<and>
           unopened w' = [] \<and>
           (fs w' destPath = None \<or>
            fs (settle w) destPath \<noteq> None \<and>
            fst (fsUnlink env destPath (emit (ExistsSync destPath) (emit (HttpsGet url) (settle w)))) \<noteq> Inr () \<and>
            fs w' = fs (settle w))"
proof -
  have "downloadFile_try env url destPath w =
          Some (Inl (new_Error (''Failed to download: '' @ string_of_nat (statusCode response))),
                emit (HttpsGet url) (settle w))"
    using assms by (simp add: downloadFile_try_def https_request_def)
  from downloadFile_rethrows[OF this] obtain w' where
    "downloadFile env url destPath w =
       Some (Inl (new_Error (''Failed to download: '' @ string_of_nat (statusCode response))), w')"
    "trace w' = trace (emit (HttpsGet url) (settle w)) @ ExistsSync destPath #
       (if fs (emit (HttpsGet url) (settle w)) destPath = None then [] else [Unlink destPath])"
    "unopened w' =
       (if fs (emit (HttpsGet url) (settle w)) destPath = None
        then unopened (emit (HttpsGet url) (settle w)) else [])"
    "fs w' destPath = None \<or>
     fs (emit (HttpsGet url) (settle w)) destPath \<noteq> None \<and>
     fst (fsUnlink env destPath (emit (ExistsSync destPath) (emit (HttpsGet url) (settle w)))) \<noteq> Inr () \<and>
     fs w' = fs (settle (emit (HttpsGet url) (settle w)))"
    by blast
  then show ?thesis
    by (intro exI[of _ w']) (simp split: if_splits)
qed

text \<open>A 204, a 307 and a 308: each is an error, and no file.\<close>

theorem downloadFile_writes_only_on_200_witness:
  "(\<exists>w'. downloadFile (status_host 204) (Some ''https://cdn.example/b'') ''/storage/anemos'' start =
            Some (Inl (new_Error ''Failed to download: 204''), w') \<and>
          trace w' = [HttpsGet (Some ''https://cdn.example/b''), ExistsSync ''/storage/anemos''] \<and>
          fs w' ''/storage/anemos'' = None) \<and>
   (\<exists>w'. downloadFile (status_host 307) (Some ''https://cdn.example/b'') ''/storage/anemos'' start =
            Some (Inl (new_Error ''Failed to download: 307''), w') \<and>
          trace w' = [HttpsGet (Some ''https://cdn.example/b''), ExistsSync ''/storage/anemos''] \<and>
          fs w' ''/storage/anemos'' = None) \<and>
   (\<exists>w'. downloadFile (status_host 308) (Some ''https://cdn.example/b'') ''/storage/anemos'' start =
            Some (Inl (new_Error ''Failed to download: 308''), w') \<and>
          trace w' = [HttpsGet (Some ''https://cdn.example/b''), ExistsSync ''/storage/anemos''] \<and>
          fs w' ''/storage/anemos'' = None)"
proof -
  have g: "https_get (status_host n) start (Some ''https://cdn.example/b'') =
     Inr \<lparr>statusCode = n, headers_location = None, body = ''payload''\<rparr>" for n
    by (simp add: status_host_def host_def)
  have s: "string_of_nat 204 = ''204''" "string_of_nat 307 = ''307''" "string_of_nat 308 = ''308''"
    by (simp_all add: string_of_nat.simps)
  have i: "settle start = start"
    by (simp add: settle_idle start_def)
  from downloadFile_writes_only_on_200[OF g, of 204 "''/storage/anemos''"]
    downloadFile_writes_only_on_200[OF g, of 307 "''/storage/anemos''"]
    downloadFile_writes_only_on_200[OF g, of 308 "''/storage/anemos''"] s
  show ?thesis
    unfolding i by (auto simp: start_def)
qed

section \<open>The Synchronizer\<close>

subsection \<open>The pass, block by block\<close>

lemma ensureAnemosBinary_on_path:
  assumes "execAsync env w (binaryName env @ '' --help'') = Inr ()"
  shows "ensureAnemosBinary env ctx w =
           Some (Inr (binaryName env), emit (ExecAsync (binaryName env @ '' --help'')) (settle w))"
  using assms by (simp add: ensureAnemosBinary_def child_process_execAsync_def)

lemma getAnemosToolVersion_try_on_path:
  assumes "execAsync env w (binaryName env @ '' --help'') = Inr ()"
  shows "getAnemosToolVersion_try env ctx w =
           (case execSync env (emit (ExecAsync (binaryName env @ '' --help'')) (settle w))
                   (dq @ binaryName env @ dq @ '' --version'') of
              Inl e \<Rightarrow>
                Some (Inl e,
                  (settle w)\<lparr>fs := execSync_files env (emit (ExecAsync (binaryName env @ '' --help'')) (settle w))
                                      (dq @ binaryName env @ dq @ '' --version''),
                              trace := trace w @
                       [ExecAsync (binaryName env @ '' --help''),
                        ExecSync (dq @ binaryName env @ dq @ '' --version'')]\<rparr>)
            | Inr out \<Rightarrow>
                Some (Inr (String_trim env out),
                  (settle w)\<lparr>fs := execSync_files env (emit (ExecAsync (binaryName env @ '' --help'')) (settle w))
                                      (dq @ binaryName env @ dq @ '' --version''),
                              trace := trace w @
                       [ExecAsync (binaryName env @ '' --help''),
                        ExecSync (dq @ binaryName env @ dq @ '' --version''),
                        ConsoleLog (''Detected anemos tool version: '' @ String_trim env out)]\<rparr>))"
  unfolding getAnemosToolVersion_try_def ensureAnemosBinary_on_path[OF assms]
  by (simp add: child_process_execSync_def emit_def Let_def split: sum.split)

lemma generateAnemosTypes_on_path:
  assumes "execAsync env (emit (ConsoleLog (''Generating Anemos type definitions in '' @ outputDir)) w)
             (binaryName env @ '' --help'') = Inr ()"
  shows "generateAnemosTypes env ctx outputDir w =
           (case execSync env
                   ((settle w)\<lparr>trace := trace w @
                       [ConsoleLog (''Generating Anemos type definitions in '' @ outputDir),
                        ExecAsync (binaryName env @ '' --help'')]\<rparr>)
                   (dq @ binaryName env @ dq @ '' declarations '' @ dq @ outputDir @ dq) of
              Inl e \<Rightarrow>
                Some (Inl e,
                  (settle w)\<lparr>fs := execSync_files env
                                ((settle w)\<lparr>trace := trace w @
                                   [ConsoleLog (''Generating Anemos type definitions in '' @ outputDir),
                                    ExecAsync (binaryName env @ '' --help'')]\<rparr>)
                                (dq @ binaryName env @ dq @ '' declarations '' @ dq @ outputDir @ dq),
                              trace := trace w @
                       [ConsoleLog (''Generating Anemos type definitions in '' @ outputDir),
                        ExecAsync (binaryName env @ '' --help''),
                        ExecSync (dq @ binaryName env @ dq @ '' declarations '' @ dq @ outputDir @ dq),
                        ConsoleLog (''Error generating type definitions: '' @ error_toString e)]\<rparr>)
            | Inr out \<Rightarrow>
                Some (Inr (),
                  (settle w)\<lparr>fs := execSync_files env
                                ((settle w)\<lparr>trace := trace w @
                                   [ConsoleLog (''Generating Anemos type definitions in '' @ outputDir),
                                    ExecAsync (binaryName env @ '' --help'')]\<rparr>)
                                (dq @ binaryName env @ dq @ '' declarations '' @ dq @ outputDir @ dq),
                              trace := trace w @
                       [ConsoleLog (''Generating Anemos type definitions in '' @ outputDir),
                        ExecAsync (binaryName env @ '' --help''),
                        ExecSync (dq @ binaryName env @ dq @ '' declarations '' @ dq @ outputDir @ dq),
                        ConsoleLog ''Successfully generated type definitions.'']\<rparr>))"
  unfolding generateAnemosTypes_def generateAnemosTypes_try_def ensureAnemosBinary_on_path[OF assms]
  by (simp add: child_process_execSync_def emit_def split: sum.split)

lemma getAnemosToolVersion_catches:
  assumes "getAnemosToolVersion_try env ctx w = Some (Inl e, w1)"
  shows "getAnemosToolVersion env ctx w =
           Some (Inr ''unknown'', emit (ConsoleLog (''Error getting anemos version: '' @ error_toString e)) w1)"
  using assms by (simp add: getAnemosToolVersion_def)

lemma needsUpdate_absent:
  "fs w (versionFilePath env) = None \<Longrightarrow>
   needsUpdate env currentVersion w =
     (True, w\<lparr>trace := trace w @ [ExistsSync (versionFilePath env),
                                  ConsoleLog ''No version file found, will generate types.'']\<rparr>)"
  by (simp add: needsUpdate_def fs_existsSync_def emit_def)




lemma ensureTypesAreUpToDate_try_unfold:
  assumes "getAnemosToolVersion env ctx w = Some (Inr currentVersion, w1)"
  shows "ensureTypesAreUpToDate_try env ctx w =
           (if fst (needsUpdate env currentVersion w1)
            then regenerate env ctx currentVersion (snd (needsUpdate env currentVersion w1))
            else Some (Inr (), snd (needsUpdate env currentVersion w1)))"
  using assms by (simp add: ensureTypesAreUpToDate_try_def case_prod_beta)

lemma fs_writeFileSync_ok:
  assumes "fst (fs_writeFileSync env p d w) = Inr ()"
  shows "fs_writeFileSync env p d w =
           (Inr (), w\<lparr>fs := (fs w)(p \<mapsto> File d), trace := trace w @ [WriteFileSync p d]\<rparr>)"
  using assms
  by (auto simp: fs_writeFileSync_def Let_def emit_def split: option.splits node.splits)

lemma regenerate_failed:
  assumes "generateAnemosTypes env ctx (typesDir env) w = Some (Inl e, w1)"
  shows "regenerate env ctx currentVersion w = Some (Inl e, w1)"
  using assms by (simp add: regenerate_def)

lemma regenerate_write_failed:
  assumes "generateAnemosTypes env ctx (typesDir env) w = Some (Inr (), w1)"
    and "fs_writeFileSync env (versionFilePath env)
           (JSON_stringify env (versionRecord currentVersion (toISOString_now env w1))) w1 = (Inl e, w2)"
  shows "regenerate env ctx currentVersion w = Some (Inl e, w2)"
  using assms by (simp add: regenerate_def)

lemma regenerate_succeeded:
  assumes "generateAnemosTypes env ctx (typesDir env) w = Some (Inr (), w1)"
    and "fst (fs_writeFileSync env (versionFilePath env)
           (JSON_stringify env (versionRecord currentVersion (toISOString_now env w1))) w1) = Inr ()"
  shows "regenerate env ctx currentVersion w =
           Some (Inr (),
                 w1\<lparr>fs := (fs w1)(versionFilePath env \<mapsto>
                          File (JSON_stringify env (versionRecord currentVersion (toISOString_now env w1)))),
                     trace := trace w1 @
                       [WriteFileSync (versionFilePath env)
                          (JSON_stringify env (versionRecord currentVersion (toISOString_now env w1))),
                        ConsoleLog (''Updated version file to '' @ currentVersion),
                        ExecuteCommand ''typescript.restartTsServer'']\<rparr>)"
  using assms(1) fs_writeFileSync_ok[OF assms(2)]
  by (simp add: regenerate_def emit_def)

lemma ensureTypesAreUpToDate_Inr:
  "ensureTypesAreUpToDate env ctx w = Some (r, w') \<Longrightarrow> r = Inr ()"
  unfolding ensureTypesAreUpToDate_def
  by (erule bind_result_cases) auto

lemma ensureTypesAreUpToDate_logs:
  assumes "ensureTypesAreUpToDate_try env ctx w = Some (Inl e, w1)"
  shows "ensureTypesAreUpToDate env ctx w =
           Some (Inr (), emit (ConsoleLog (''Error ensuring types are up to date: '' @ error_toString e)) w1)"
  using assms by (simp add: ensureTypesAreUpToDate_def)

lemma needsUpdate_read_failed:
  assumes "fs w (versionFilePath env) \<noteq> None"
    and "readVersionFile env currentVersion (emit (ExistsSync (versionFilePath env)) w) = (Inl e, w1)"
  shows "needsUpdate env currentVersion w =
           (True, emit (ConsoleLog (''Error reading version file: '' @ error_toString e)) w1)"
  using assms by (simp add: needsUpdate_def fs_existsSync_def)

lemma ensureTypesAreUpToDate_try_regenerates:
  assumes "getAnemosToolVersion env ctx w = Some (Inr currentVersion, w1)"
    and "needsUpdate env currentVersion w1 = (True, w2)"
  shows "ensureTypesAreUpToDate_try env ctx w = regenerate env ctx currentVersion w2"
  using assms by (simp add: ensureTypesAreUpToDate_try_unfold)

subsection \<open>The example hosts at work\<close>

lemma needsUpdate_stale:
  assumes "fs w (versionFilePath env) = Some (File stored_text)"
    and "fs_fault env (emit (ExistsSync (versionFilePath env)) w) (ReadFileSync (versionFilePath env)) = None"
    and "JSON_parse env stored_text = Inr versionData"
    and "get_version versionData = Inr stored"
    and "stored \<noteq> JString currentVersion"
  shows "needsUpdate env currentVersion w =
           (True, w\<lparr>trace := trace w @
                       [ExistsSync (versionFilePath env), ReadFileSync (versionFilePath env),
                        ConsoleLog (''Types need update: current version '' @ currentVersion @
                                    '', stored version '' @ ToString env stored)]\<rparr>)"
  using assms
  by (simp add: needsUpdate_def fs_existsSync_def readVersionFile_def fs_readFileSync_def Let_def emit_def)

lemma host_on_path:
  "execAsync host w c = Inr ()" "execAsync unversioned_host w c = Inr ()"
  "execAsync legacy_host w c = Inr ()" "execAsync failing_host w c = Inr ()"
  by (simp_all add: host_def unversioned_host_def legacy_host_def failing_host_def)



lemma readonly_host_on_path: "execAsync readonly_host w c = Inr ()"
  by (simp add: readonly_host_def host_def)

lemma readonly_host_version:
  "getAnemosToolVersion readonly_host ctx w =
     Some (Inr ''1.2.0'',
           (settle w)\<lparr>trace := trace w @
                 [ExecAsync ''anemos --help'', ExecSync (dq @ ''anemos'' @ dq @ '' --version''),
                  ConsoleLog ''Detected anemos tool version: 1.2.0'']\<rparr>)"
  apply (simp add: getAnemosToolVersion_def getAnemosToolVersion_try_on_path[OF readonly_host_on_path])
  apply (simp add: readonly_host_def host_def binaryName_def dq_def suffix_to_prefix)
  apply (simp add: ascii_trim_def ascii_space_def)
  done

lemma readonly_host_generate:
  "generateAnemosTypes readonly_host ctx outputDir w =
     Some (Inr (),
           (settle w)\<lparr>trace := trace w @
                 [ConsoleLog (''Generating Anemos type definitions in '' @ outputDir),
                  ExecAsync ''anemos --help'',
                  ExecSync (dq @ ''anemos'' @ dq @ '' declarations '' @ dq @ outputDir @ dq),
                  ConsoleLog ''Successfully generated type definitions.'']\<rparr>)"
  apply (simp add: generateAnemosTypes_on_path[OF readonly_host_on_path])
  apply (simp add: readonly_host_def host_def binaryName_def dq_def suffix_to_prefix)
  done

lemma readonly_host_needsUpdate:
  assumes "fs w (versionFilePath readonly_host) \<noteq> None"
  shows "readVersionFile readonly_host currentVersion (emit (ExistsSync (versionFilePath readonly_host)) w) =
           (Inl (system_error ''EACCES: permission denied'' ''open'' (versionFilePath readonly_host)),
            w\<lparr>trace := trace w @ [ExistsSync (versionFilePath readonly_host),
                                  ReadFileSync (versionFilePath readonly_host)]\<rparr>)"
  by (simp add: readVersionFile_def fs_readFileSync_def Let_def emit_def) (simp add: readonly_host_def host_def)

lemma readonly_host_write:
  "fs_writeFileSync readonly_host p d w =
     (Inl (system_error ''EACCES: permission denied'' ''open'' p), w\<lparr>trace := trace w @ [WriteFileSync p d]\<rparr>)"
  by (simp add: fs_writeFileSync_def Let_def emit_def) (simp add: readonly_host_def host_def)

lemma legacy_host_version_try:
  "getAnemosToolVersion_try legacy_host ctx w =
     Some (Inl (new_Error ''Command failed: anemos --version''),
           (settle w)\<lparr>trace := trace w @
                 [ExecAsync ''anemos --help'', ExecSync (dq @ ''anemos'' @ dq @ '' --version'')]\<rparr>)"
  apply (simp add: getAnemosToolVersion_try_on_path[OF host_on_path(3)])
  apply (simp add: legacy_host_def host_def binaryName_def dq_def suffix_to_prefix)
  done

lemma failing_host_version_try:
  "getAnemosToolVersion_try failing_host ctx w =
     Some (Inl (new_Error ''Command failed''),
           (settle w)\<lparr>trace := trace w @
                 [ExecAsync ''anemos --help'', ExecSync (dq @ ''anemos'' @ dq @ '' --version'')]\<rparr>)"
  apply (simp add: getAnemosToolVersion_try_on_path[OF host_on_path(4)])
  apply (simp add: failing_host_def host_def binaryName_def dq_def)
  done

lemma host_generate:
  "generateAnemosTypes host ctx outputDir w =
     Some (Inr (),
           (settle w)\<lparr>trace := trace w @
                 [ConsoleLog (''Generating Anemos type definitions in '' @ outputDir),
                  ExecAsync ''anemos --help'',
                  ExecSync (dq @ ''anemos'' @ dq @ '' declarations '' @ dq @ outputDir @ dq),
                  ConsoleLog ''Successfully generated type definitions.'']\<rparr>)"
  "generateAnemosTypes legacy_host ctx outputDir w =
     Some (Inr (),
           (settle w)\<lparr>trace := trace w @
                 [ConsoleLog (''Generating Anemos type definitions in '' @ outputDir),
                  ExecAsync ''anemos --help'',
                  ExecSync (dq @ ''anemos'' @ dq @ '' declarations '' @ dq @ outputDir @ dq),
                  ConsoleLog ''Successfully generated type definitions.'']\<rparr>)"
   apply (simp add: generateAnemosTypes_on_path[OF host_on_path(1)])
   apply (simp add: host_def binaryName_def dq_def suffix_to_prefix)
  apply (simp add: generateAnemosTypes_on_path[OF host_on_path(3)])
  apply (simp add: legacy_host_def host_def binaryName_def dq_def suffix_to_prefix)
  done

lemma failing_host_generate:
  "generateAnemosTypes failing_host ctx outputDir w =
     Some (Inl (new_Error ''Command failed''),
           (settle w)\<lparr>trace := trace w @
                 [ConsoleLog (''Generating Anemos type definitions in '' @ outputDir),
                  ExecAsync ''anemos --help'',
                  ExecSync (dq @ ''anemos'' @ dq @ '' declarations '' @ dq @ outputDir @ dq),
                  ConsoleLog ''Error generating type definitions: Error: Command failed'']\<rparr>)"
  apply (simp add: generateAnemosTypes_on_path[OF host_on_path(4)])
  apply (simp add: failing_host_def host_def binaryName_def dq_def error_toString_def new_Error_def)
  done

lemma host_paths:
  "versionFilePath host = ''/ext/node_modules/anemos-typescript-plugin/.anemos-types/version.json''"
  "typesDir host = ''/ext/node_modules/anemos-typescript-plugin/.anemos-types''"
  "binaryPath host ctx0 = ''/storage/anemos''"
  "versionFilePath legacy_host = versionFilePath host" "typesDir legacy_host = typesDir host"
  "versionFilePath failing_host = versionFilePath host" "typesDir failing_host = typesDir host"
  "binaryPath failing_host ctx0 = ''/storage/anemos''"
  by (simp_all add: versionFilePath_def typesDir_def binaryPath_def binaryName_def ctx0_def
        host_def legacy_host_def failing_host_def)

lemma example_hosts_download_returns:
  "downloadFile host url destPath v \<noteq> None" "downloadFile failing_host url destPath v \<noteq> None"
  by (simp_all add: downloadFile_unfold downloadFile_try_def https_request_def failing_host_def host_def)

lemma legacy_host_pass:
  "ensureTypesAreUpToDate legacy_host ctx0 start =
     Some (Inr (),
           \<lparr>fs = [''/ext/node_modules/anemos-typescript-plugin/.anemos-types/version.json'' \<mapsto>
                   File (flat_stringify (versionRecord ''unknown'' stamp))],
            trace =
              [ExecAsync ''anemos --help'',
               ExecSync (dq @ ''anemos'' @ dq @ '' --version''),
               ConsoleLog ''Error getting anemos version: Error: Command failed: anemos --version'',
               ExistsSync ''/ext/node_modules/anemos-typescript-plugin/.anemos-types/version.json'',
               ConsoleLog ''No version file found, will generate types.'',
               ConsoleLog ''Generating Anemos type definitions in /ext/node_modules/anemos-typescript-plugin/.anemos-types'',
               ExecAsync ''anemos --help'',
               ExecSync (dq @ ''anemos'' @ dq @ '' declarations '' @ dq @
                         ''/ext/node_modules/anemos-typescript-plugin/.anemos-types'' @ dq),
               ConsoleLog ''Successfully generated type definitions.'',
               WriteFileSync ''/ext/node_modules/anemos-typescript-plugin/.anemos-types/version.json''
                 (flat_stringify (versionRecord ''unknown'' stamp)),
               ConsoleLog ''Updated version file to unknown'',
               ExecuteCommand ''typescript.restartTsServer''],
            unopened = []\<rparr>)"
proof -
  let ?vp = "''/ext/node_modules/anemos-typescript-plugin/.anemos-types/version.json''"
  let ?a = "start\<lparr>trace := [ExecAsync ''anemos --help'', ExecSync (dq @ ''anemos'' @ dq @ '' --version''),
               ConsoleLog ''Error getting anemos version: Error: Command failed: anemos --version'']\<rparr>"
  let ?b = "start\<lparr>trace := [ExecAsync ''anemos --help'', ExecSync (dq @ ''anemos'' @ dq @ '' --version''),
               ConsoleLog ''Error getting anemos version: Error: Command failed: anemos --version'',
               ExistsSync ?vp, ConsoleLog ''No version file found, will generate types.'']\<rparr>"
  have v: "getAnemosToolVersion legacy_host ctx0 start = Some (Inr ''unknown'', ?a)"
    by (simp add: getAnemosToolVersion_catches[OF legacy_host_version_try] error_toString_def new_Error_def
          emit_def start_def)
  have n: "needsUpdate legacy_host ''unknown'' ?a = (True, ?b)"
    by (simp add: needsUpdate_absent host_paths start_def)
  have g: "generateAnemosTypes legacy_host ctx0 (typesDir legacy_host) ?b =
             Some (Inr (), ?b\<lparr>trace := trace ?b @
                 [ConsoleLog (''Generating Anemos type definitions in '' @ typesDir legacy_host),
                  ExecAsync ''anemos --help'',
                  ExecSync (dq @ ''anemos'' @ dq @ '' declarations '' @ dq @ typesDir legacy_host @ dq),
                  ConsoleLog ''Successfully generated type definitions.'']\<rparr>)"
    by (simp add: host_generate(2) settle_idle)
  have f: "fst (fs_writeFileSync legacy_host p d u) = Inr ()" if "fs u p = None" for p d u
    using that by (simp add: fs_writeFileSync_def legacy_host_def host_def Let_def)
  show ?thesis
    unfolding ensureTypesAreUpToDate_def ensureTypesAreUpToDate_try_regenerates[OF v n]
    apply (subst regenerate_succeeded[OF g])
     apply (rule f)
     apply (simp add: start_def)
    apply (simp add: host_paths start_def)
    apply (simp add: legacy_host_def host_def)
    done
qed

subsection \<open>The staleness decision\<close>



subsection \<open>Writing the version record\<close>


lemma record_version_cong:
  "fs w' (versionFilePath env) = fs w (versionFilePath env) \<Longrightarrow>
   record_version env w' = record_version env w"
  by (simp add: record_version_def)

lemma artifacts_emit [simp]: "artifacts env ctx (emit e w) = artifacts env ctx w"
  by (simp add: artifacts_def)






subsection \<open>The tools that write declarations, at work\<close>

















subsection \<open>Failures never leave the pass\<close>

text \<open>
  Claim C8. \<^verbatim>\<open>ensureTypesAreUpToDate\<close> never throws: whatever it returns is a normal return, and
  it does return whenever the downloads it may start return. An error that leaves its
  \<^verbatim>\<open>try\<close> block is logged and swallowed. In particular: a failed version query is logged by
  \<^verbatim>\<open>getAnemosToolVersion\<close>, which returns \<^verbatim>\<open>unknown\<close>; a failed read of the record is logged
  by the inner handler, which asks for an update; a failed generation and a failed write
  of the record are logged by the outer handler, and the pass returns normally.
\<close>

theorem ensureTypesAreUpToDate_never_throws:
  "(ensureTypesAreUpToDate env ctx w = Some (r, w') \<longrightarrow> r = Inr ()) \<and>
   ((\<forall>url destPath v. downloadFile env url destPath v \<noteq> None) \<longrightarrow>
      (\<exists>w'. ensureTypesAreUpToDate env ctx w = Some (Inr (), w'))) \<and>
   (ensureTypesAreUpToDate_try env ctx w = Some (Inl e, w1) \<longrightarrow>
      ensureTypesAreUpToDate env ctx w =
        Some (Inr (), emit (ConsoleLog (''Error ensuring types are up to date: '' @ error_toString e)) w1)) \<and>
   (getAnemosToolVersion_try env ctx w = Some (Inl e, w1) \<longrightarrow>
      getAnemosToolVersion env ctx w =
        Some (Inr ''unknown'', emit (ConsoleLog (''Error getting anemos version: '' @ error_toString e)) w1)) \<and>
   (fs w1 (versionFilePath env) \<noteq> None \<and>
    readVersionFile env currentVersion (emit (ExistsSync (versionFilePath env)) w1) = (Inl e, w2) \<longrightarrow>
      needsUpdate env currentVersion w1 =
        (True, emit (ConsoleLog (''Error reading version file: '' @ error_toString e)) w2)) \<and>
   (getAnemosToolVersion env ctx w = Some (Inr currentVersion, w1) \<and>
    needsUpdate env currentVersion w1 = (True, w2) \<and>
    generateAnemosTypes env ctx (typesDir env) w2 = Some (Inl e, w3) \<longrightarrow>
      ensureTypesAreUpToDate env ctx w =
        Some (Inr (), emit (ConsoleLog (''Error ensuring types are up to date: '' @ error_toString e)) w3)) \<and>
   (getAnemosToolVersion env ctx w = Some (Inr currentVersion, w1) \<and>
    needsUpdate env currentVersion w1 = (True, w2) \<and>
    generateAnemosTypes env ctx (typesDir env) w2 = Some (Inr (), w3) \<and>
    fs_writeFileSync env (versionFilePath env)
      (JSON_stringify env (versionRecord currentVersion (toISOString_now env w3))) w3 = (Inl e, w4) \<longrightarrow>
      ensureTypesAreUpToDate env ctx w =
        Some (Inr (), emit (ConsoleLog (''Error ensuring types are up to date: '' @ error_toString e)) w4))"
proof (intro conjI impI)
  assume "ensureTypesAreUpToDate env ctx w = Some (r, w')"
  then show "r = Inr ()" by (rule ensureTypesAreUpToDate_Inr)
next
  assume "\<forall>url destPath v. downloadFile env url destPath v \<noteq> None"
  then have "ensureTypesAreUpToDate env ctx w \<noteq> None"
    by (intro ensureTypesAreUpToDate_returns) simp
  then obtain r w' where "ensureTypesAreUpToDate env ctx w = Some (r, w')"
    by auto
  with ensureTypesAreUpToDate_Inr[OF this] show "\<exists>w'. ensureTypesAreUpToDate env ctx w = Some (Inr (), w')"
    by auto
next
  assume "ensureTypesAreUpToDate_try env ctx w = Some (Inl e, w1)"
  then show "ensureTypesAreUpToDate env ctx w =
        Some (Inr (), emit (ConsoleLog (''Error ensuring types are up to date: '' @ error_toString e)) w1)"
    by (rule ensureTypesAreUpToDate_logs)
next
  assume "getAnemosToolVersion_try env ctx w = Some (Inl e, w1)"
  then show "getAnemosToolVersion env ctx w =
        Some (Inr ''unknown'', emit (ConsoleLog (''Error getting anemos version: '' @ error_toString e)) w1)"
    by (rule getAnemosToolVersion_catches)
next
  assume "fs w1 (versionFilePath env) \<noteq> None \<and>
    readVersionFile env currentVersion (emit (ExistsSync (versionFilePath env)) w1) = (Inl e, w2)"
  then show "needsUpdate env currentVersion w1 =
        (True, emit (ConsoleLog (''Error reading version file: '' @ error_toString e)) w2)"
    by (simp add: needsUpdate_read_failed)
next
  assume a: "getAnemosToolVersion env ctx w = Some (Inr currentVersion, w1) \<and>
    needsUpdate env currentVersion w1 = (True, w2) \<and>
    generateAnemosTypes env ctx (typesDir env) w2 = Some (Inl e, w3)"
  then have "ensureTypesAreUpToDate_try env ctx w = Some (Inl e, w3)"
    by (simp add: ensureTypesAreUpToDate_try_regenerates regenerate_failed)
  then show "ensureTypesAreUpToDate env ctx w =
        Some (Inr (), emit (ConsoleLog (''Error ensuring types are up to date: '' @ error_toString e)) w3)"
    by (rule ensureTypesAreUpToDate_logs)
next
  assume a: "getAnemosToolVersion env ctx w = Some (Inr currentVersion, w1) \<and>
    needsUpdate env currentVersion w1 = (True, w2) \<and>
    generateAnemosTypes env ctx (typesDir env) w2 = Some (Inr (), w3) \<and>
    fs_writeFileSync env (versionFilePath env)
      (JSON_stringify env (versionRecord currentVersion (toISOString_now env w3))) w3 = (Inl e, w4)"
  then have "ensureTypesAreUpToDate_try env ctx w = Some (Inl e, w4)"
    by (simp add: ensureTypesAreUpToDate_try_regenerates regenerate_write_failed)
  then show "ensureTypesAreUpToDate env ctx w =
        Some (Inr (), emit (ConsoleLog (''Error ensuring types are up to date: '' @ error_toString e)) w4)"
    by (rule ensureTypesAreUpToDate_logs)
qed

text \<open>
  On \<open>failing_host\<close> the version query fails and then the generation; on \<open>readonly_host\<close>
  the read of the record fails and then the write. All four are logged, and both passes
  return normally.
\<close>

theorem ensureTypesAreUpToDate_never_throws_witness:
  "(\<forall>url destPath v. downloadFile failing_host url destPath v \<noteq> None) \<and>
   (\<exists>w'. ensureTypesAreUpToDate failing_host ctx0 start = Some (Inr (), w')) \<and>
   ensureTypesAreUpToDate failing_host ctx0 start =
     Some (Inr (),
           start\<lparr>trace :=
              [ExecAsync ''anemos --help'',
               ExecSync (dq @ ''anemos'' @ dq @ '' --version''),
               ConsoleLog ''Error getting anemos version: Error: Command failed'',
               ExistsSync (versionFilePath failing_host),
               ConsoleLog ''No version file found, will generate types.'',
               ConsoleLog (''Generating Anemos type definitions in '' @ typesDir failing_host),
               ExecAsync ''anemos --help'',
               ExecSync (dq @ ''anemos'' @ dq @ '' declarations '' @ dq @ typesDir failing_host @ dq),
               ConsoleLog ''Error generating type definitions: Error: Command failed'',
               ConsoleLog ''Error ensuring types are up to date: Error: Command failed'']\<rparr>) \<and>
   ensureTypesAreUpToDate readonly_host ctx0
       (start\<lparr>fs := [versionFilePath readonly_host \<mapsto> File ''{}'']\<rparr>) =
     Some (Inr (),
           start\<lparr>fs := [versionFilePath readonly_host \<mapsto> File ''{}''],
                 trace :=
              [ExecAsync ''anemos --help'',
               ExecSync (dq @ ''anemos'' @ dq @ '' --version''),
               ConsoleLog ''Detected anemos tool version: 1.2.0'',
               ExistsSync (versionFilePath readonly_host),
               ReadFileSync (versionFilePath readonly_host),
               ConsoleLog (''Error reading version file: '' @
                 error_toString (system_error ''EACCES: permission denied'' ''open'' (versionFilePath readonly_host))),
               ConsoleLog (''Generating Anemos type definitions in '' @ typesDir readonly_host),
               ExecAsync ''anemos --help'',
               ExecSync (dq @ ''anemos'' @ dq @ '' declarations '' @ dq @ typesDir readonly_host @ dq),
               ConsoleLog ''Successfully generated type definitions.'',
               WriteFileSync (versionFilePath readonly_host)
                 (flat_stringify (versionRecord ''1.2.0'' stamp)),
               ConsoleLog (''Error ensuring types are up to date: '' @
                 error_toString (system_error ''EACCES: permission denied'' ''open'' (versionFilePath readonly_host)))]\<rparr>)"
proof -
  let ?vp = "versionFilePath failing_host"
  let ?q = "start\<lparr>trace := [ExecAsync ''anemos --help'', ExecSync (dq @ ''anemos'' @ dq @ '' --version'')]\<rparr>"
  let ?a = "start\<lparr>trace := [ExecAsync ''anemos --help'', ExecSync (dq @ ''anemos'' @ dq @ '' --version''),
               ConsoleLog ''Error getting anemos version: Error: Command failed'']\<rparr>"
  let ?b = "?a\<lparr>trace := trace ?a @ [ExistsSync ?vp, ConsoleLog ''No version file found, will generate types.'']\<rparr>"
  let ?c = "?b\<lparr>trace := trace ?b @
                 [ConsoleLog (''Generating Anemos type definitions in '' @ typesDir failing_host),
                  ExecAsync ''anemos --help'',
                  ExecSync (dq @ ''anemos'' @ dq @ '' declarations '' @ dq @ typesDir failing_host @ dq),
                  ConsoleLog ''Error generating type definitions: Error: Command failed'']\<rparr>"
  let ?e = "new_Error ''Command failed''"
  note inst = ensureTypesAreUpToDate_never_throws[where env = failing_host and ctx = ctx0 and w = start
      and r = "Inr ()" and w' = start and e = ?e and ?w1.0 = ?a and ?w2.0 = ?b and ?w3.0 = ?c
      and ?w4.0 = start and currentVersion = "''unknown''"]
  have total: "\<forall>url destPath v. downloadFile failing_host url destPath v \<noteq> None"
    by (simp add: example_hosts_download_returns)
  have v: "getAnemosToolVersion failing_host ctx0 start = Some (Inr ''unknown'', ?a)"
    by (simp add: getAnemosToolVersion_catches[OF failing_host_version_try] error_toString_def new_Error_def
          emit_def start_def)
  have n: "needsUpdate failing_host ''unknown'' ?a = (True, ?b)"
    by (rule needsUpdate_absent) (simp add: start_def)
  have g: "generateAnemosTypes failing_host ctx0 (typesDir failing_host) ?b = Some (Inl ?e, ?c)"
    by (simp add: failing_host_generate settle_idle)
  from inst total have returns: "\<exists>w'. ensureTypesAreUpToDate failing_host ctx0 start = Some (Inr (), w')"
    by blast
  from inst v n g have "ensureTypesAreUpToDate failing_host ctx0 start =
        Some (Inr (), emit (ConsoleLog (''Error ensuring types are up to date: '' @ error_toString ?e)) ?c)"
    by blast
  then have one: "ensureTypesAreUpToDate failing_host ctx0 start =
     Some (Inr (),
           start\<lparr>trace :=
              [ExecAsync ''anemos --help'',
               ExecSync (dq @ ''anemos'' @ dq @ '' --version''),
               ConsoleLog ''Error getting anemos version: Error: Command failed'',
               ExistsSync (versionFilePath failing_host),
               ConsoleLog ''No version file found, will generate types.'',
               ConsoleLog (''Generating Anemos type definitions in '' @ typesDir failing_host),
               ExecAsync ''anemos --help'',
               ExecSync (dq @ ''anemos'' @ dq @ '' declarations '' @ dq @ typesDir failing_host @ dq),
               ConsoleLog ''Error generating type definitions: Error: Command failed'',
               ConsoleLog ''Error ensuring types are up to date: Error: Command failed'']\<rparr>)"
    by (simp add: emit_def error_toString_def new_Error_def start_def)
  let ?rp = "versionFilePath readonly_host"
  let ?err = "system_error ''EACCES: permission denied'' ''open'' ?rp"
  let ?s = "start\<lparr>fs := [?rp \<mapsto> File ''{}'']\<rparr>"
  let ?ra = "?s\<lparr>trace := [ExecAsync ''anemos --help'', ExecSync (dq @ ''anemos'' @ dq @ '' --version''),
               ConsoleLog ''Detected anemos tool version: 1.2.0'']\<rparr>"
  let ?rr = "?ra\<lparr>trace := trace ?ra @ [ExistsSync ?rp, ReadFileSync ?rp]\<rparr>"
  let ?rb = "emit (ConsoleLog (''Error reading version file: '' @ error_toString ?err)) ?rr"
  let ?rc = "?rb\<lparr>trace := trace ?rb @
                 [ConsoleLog (''Generating Anemos type definitions in '' @ typesDir readonly_host),
                  ExecAsync ''anemos --help'',
                  ExecSync (dq @ ''anemos'' @ dq @ '' declarations '' @ dq @ typesDir readonly_host @ dq),
                  ConsoleLog ''Successfully generated type definitions.'']\<rparr>"
  let ?data = "JSON_stringify readonly_host (versionRecord ''1.2.0'' (toISOString_now readonly_host ?rc))"
  let ?rd = "?rc\<lparr>trace := trace ?rc @ [WriteFileSync ?rp ?data]\<rparr>"
  note rinst = ensureTypesAreUpToDate_never_throws[where env = readonly_host and ctx = ctx0 and w = ?s
      and r = "Inr ()" and w' = start and e = ?err and ?w1.0 = ?ra and ?w2.0 = ?rr and ?w3.0 = ?rc
      and ?w4.0 = ?rd and currentVersion = "''1.2.0''"]
  have rv: "getAnemosToolVersion readonly_host ctx0 ?s = Some (Inr ''1.2.0'', ?ra)"
    by (simp add: readonly_host_version start_def)
  have present: "fs ?ra ?rp \<noteq> None"
    by (simp add: start_def)
  have rread: "readVersionFile readonly_host ''1.2.0'' (emit (ExistsSync ?rp) ?ra) = (Inl ?err, ?rr)"
    by (rule readonly_host_needsUpdate[OF present])
  from rinst present rread have rn: "needsUpdate readonly_host ''1.2.0'' ?ra = (True, ?rb)"
    by blast
  have rg: "generateAnemosTypes readonly_host ctx0 (typesDir readonly_host) ?rb = Some (Inr (), ?rc)"
    by (simp add: readonly_host_generate settle_idle)
  have rw: "fs_writeFileSync readonly_host ?rp ?data ?rc = (Inl ?err, ?rd)"
    by (rule readonly_host_write)
  have rinst': "getAnemosToolVersion readonly_host ctx0 ?s = Some (Inr ''1.2.0'', ?ra) \<and>
    needsUpdate readonly_host ''1.2.0'' ?ra = (True, ?rb) \<and>
    generateAnemosTypes readonly_host ctx0 (typesDir readonly_host) ?rb = Some (Inr (), ?rc) \<and>
    fs_writeFileSync readonly_host ?rp ?data ?rc = (Inl ?err, ?rd) \<longrightarrow>
      ensureTypesAreUpToDate readonly_host ctx0 ?s =
        Some (Inr (), emit (ConsoleLog (''Error ensuring types are up to date: '' @ error_toString ?err)) ?rd)"
    using ensureTypesAreUpToDate_never_throws[where env = readonly_host and ctx = ctx0 and w = ?s
      and r = "Inr ()" and w' = start and e = ?err and ?w1.0 = ?ra and ?w2.0 = ?rb and ?w3.0 = ?rc
      and ?w4.0 = ?rd and currentVersion = "''1.2.0''"]
    by blast
  with rv rn rg rw have "ensureTypesAreUpToDate readonly_host ctx0 ?s =
        Some (Inr (), emit (ConsoleLog (''Error ensuring types are up to date: '' @ error_toString ?err)) ?rd)"
    by blast
  then have two: "ensureTypesAreUpToDate readonly_host ctx0 ?s =
     Some (Inr (),
           start\<lparr>fs := [?rp \<mapsto> File ''{}''],
                 trace :=
              [ExecAsync ''anemos --help'',
               ExecSync (dq @ ''anemos'' @ dq @ '' --version''),
               ConsoleLog ''Detected anemos tool version: 1.2.0'',
               ExistsSync ?rp,
               ReadFileSync ?rp,
               ConsoleLog (''Error reading version file: '' @ error_toString ?err),
               ConsoleLog (''Generating Anemos type definitions in '' @ typesDir readonly_host),
               ExecAsync ''anemos --help'',
               ExecSync (dq @ ''anemos'' @ dq @ '' declarations '' @ dq @ typesDir readonly_host @ dq),
               ConsoleLog ''Successfully generated type definitions.'',
               WriteFileSync ?rp (flat_stringify (versionRecord ''1.2.0'' stamp)),
               ConsoleLog (''Error ensuring types are up to date: '' @ error_toString ?err)]\<rparr>)"
    by (simp add: emit_def start_def) (simp add: readonly_host_def host_def)
  from total returns one two show ?thesis
    by blast
qed

subsection \<open>A failed version query\<close>

text \<open>
  Claim C1 says that a pass whose version query fails skips the generation and never
  writes a record with version \<^verbatim>\<open>unknown\<close>. On \<open>legacy_host\<close>, whose binary fails on
  \<^verbatim>\<open>--version\<close> and nothing else, the query fails, and the pass generates the declarations and
  writes a record whose version is \<^verbatim>\<open>unknown\<close>.
\<close>

theorem failed_version_query_writes_unknown:
  "getAnemosToolVersion_try legacy_host ctx0 start =
     Some (Inl (new_Error ''Command failed: anemos --version''),
           \<lparr>fs = Map.empty,
            trace = [ExecAsync ''anemos --help'', ExecSync (dq @ ''anemos'' @ dq @ '' --version'')],
            unopened = []\<rparr>) \<and>
   ensureTypesAreUpToDate legacy_host ctx0 start =
     Some (Inr (),
           \<lparr>fs = [''/ext/node_modules/anemos-typescript-plugin/.anemos-types/version.json'' \<mapsto>
                   File (flat_stringify (versionRecord ''unknown'' stamp))],
            trace =
              [ExecAsync ''anemos --help'',
               ExecSync (dq @ ''anemos'' @ dq @ '' --version''),
               ConsoleLog ''Error getting anemos version: Error: Command failed: anemos --version'',
               ExistsSync ''/ext/node_modules/anemos-typescript-plugin/.anemos-types/version.json'',
               ConsoleLog ''No version file found, will generate types.'',
               ConsoleLog ''Generating Anemos type definitions in /ext/node_modules/anemos-typescript-plugin/.anemos-types'',
               ExecAsync ''anemos --help'',
               ExecSync (dq @ ''anemos'' @ dq @ '' declarations '' @ dq @
                         ''/ext/node_modules/anemos-typescript-plugin/.anemos-types'' @ dq),
               ConsoleLog ''Successfully generated type definitions.'',
               WriteFileSync ''/ext/node_modules/anemos-typescript-plugin/.anemos-types/version.json''
                 (flat_stringify (versionRecord ''unknown'' stamp)),
               ConsoleLog ''Updated version file to unknown'',
               ExecuteCommand ''typescript.restartTsServer''],
            unopened = []\<rparr>)"
  by (simp add: legacy_host_version_try legacy_host_pass) (simp add: start_def)

text \<open>
  Claim C1, amended. When the version query fails, \<^verbatim>\<open>getAnemosToolVersion\<close> logs the error and
  returns \<^verbatim>\<open>unknown\<close>, and the pass carries on with that as the current version: the
  generation is not skipped but decided by the usual staleness check against \<^verbatim>\<open>unknown\<close>, and
  when that check asks for an update and the generation and the write succeed, the record
  written has version \<^verbatim>\<open>unknown\<close>.
\<close>

theorem failed_version_query_continues_as_unknown:
  assumes "getAnemosToolVersion_try env ctx w = Some (Inl e, w1)"
  shows "getAnemosToolVersion env ctx w =
           Some (Inr ''unknown'', emit (ConsoleLog (''Error getting anemos version: '' @ error_toString e)) w1) \<and>
         ensureTypesAreUpToDate_try env ctx w =
           (if fst (needsUpdate env ''unknown''
                      (emit (ConsoleLog (''Error getting anemos version: '' @ error_toString e)) w1))
            then regenerate env ctx ''unknown''
                   (snd (needsUpdate env ''unknown''
                      (emit (ConsoleLog (''Error getting anemos version: '' @ error_toString e)) w1)))
            else Some (Inr (),
                   snd (needsUpdate env ''unknown''
                      (emit (ConsoleLog (''Error getting anemos version: '' @ error_toString e)) w1)))) \<and>
         (needsUpdate env ''unknown''
            (emit (ConsoleLog (''Error getting anemos version: '' @ error_toString e)) w1) = (True, w2) \<and>
          generateAnemosTypes env ctx (typesDir env) w2 = Some (Inr (), w3) \<and>
          fst (fs_writeFileSync env (versionFilePath env)
                 (JSON_stringify env (versionRecord ''unknown'' (toISOString_now env w3))) w3) = Inr () \<longrightarrow>
            ensureTypesAreUpToDate env ctx w =
              Some (Inr (),
                    w3\<lparr>fs := (fs w3)(versionFilePath env \<mapsto>
                             File (JSON_stringify env (versionRecord ''unknown'' (toISOString_now env w3)))),
                        trace := trace w3 @
                          [WriteFileSync (versionFilePath env)
                             (JSON_stringify env (versionRecord ''unknown'' (toISOString_now env w3))),
                           ConsoleLog ''Updated version file to unknown'',
                           ExecuteCommand ''typescript.restartTsServer'']\<rparr>))"
proof -
  let ?logged = "emit (ConsoleLog (''Error getting anemos version: '' @ error_toString e)) w1"
  have v: "getAnemosToolVersion env ctx w = Some (Inr ''unknown'', ?logged)"
    using assms by (rule getAnemosToolVersion_catches)
  note pass = ensureTypesAreUpToDate_try_unfold[OF v]
  have "ensureTypesAreUpToDate env ctx w =
              Some (Inr (),
                    w3\<lparr>fs := (fs w3)(versionFilePath env \<mapsto>
                             File (JSON_stringify env (versionRecord ''unknown'' (toISOString_now env w3)))),
                        trace := trace w3 @
                          [WriteFileSync (versionFilePath env)
                             (JSON_stringify env (versionRecord ''unknown'' (toISOString_now env w3))),
                           ConsoleLog ''Updated version file to unknown'',
                           ExecuteCommand ''typescript.restartTsServer'']\<rparr>)"
    if n: "needsUpdate env ''unknown'' ?logged = (True, w2)"
      and g: "generateAnemosTypes env ctx (typesDir env) w2 = Some (Inr (), w3)"
      and f: "fst (fs_writeFileSync env (versionFilePath env)
                 (JSON_stringify env (versionRecord ''unknown'' (toISOString_now env w3))) w3) = Inr ()"
    unfolding ensureTypesAreUpToDate_def ensureTypesAreUpToDate_try_regenerates[OF v n]
      regenerate_succeeded[OF g f]
    by simp
  with v pass show ?thesis
    by blast
qed

theorem failed_version_query_continues_as_unknown_witness:
  "getAnemosToolVersion_try legacy_host ctx0 start =
     Some (Inl (new_Error ''Command failed: anemos --version''),
           start\<lparr>trace := [ExecAsync ''anemos --help'', ExecSync (dq @ ''anemos'' @ dq @ '' --version'')]\<rparr>) \<and>
   getAnemosToolVersion legacy_host ctx0 start =
     Some (Inr ''unknown'',
           start\<lparr>trace := [ExecAsync ''anemos --help'', ExecSync (dq @ ''anemos'' @ dq @ '' --version''),
               ConsoleLog ''Error getting anemos version: Error: Command failed: anemos --version'']\<rparr>) \<and>
   (\<exists>w'. ensureTypesAreUpToDate legacy_host ctx0 start = Some (Inr (), w') \<and>
          fs w' (versionFilePath legacy_host) =
            Some (File (JSON_stringify legacy_host (versionRecord ''unknown'' stamp))))"
proof -
  let ?vp = "versionFilePath legacy_host"
  let ?q = "start\<lparr>trace := [ExecAsync ''anemos --help'', ExecSync (dq @ ''anemos'' @ dq @ '' --version'')]\<rparr>"
  let ?a = "start\<lparr>trace := [ExecAsync ''anemos --help'', ExecSync (dq @ ''anemos'' @ dq @ '' --version''),
               ConsoleLog ''Error getting anemos version: Error: Command failed: anemos --version'']\<rparr>"
  let ?b = "?a\<lparr>trace := trace ?a @ [ExistsSync ?vp, ConsoleLog ''No version file found, will generate types.'']\<rparr>"
  let ?c = "?b\<lparr>trace := trace ?b @
                 [ConsoleLog (''Generating Anemos type definitions in '' @ typesDir legacy_host),
                  ExecAsync ''anemos --help'',
                  ExecSync (dq @ ''anemos'' @ dq @ '' declarations '' @ dq @ typesDir legacy_host @ dq),
                  ConsoleLog ''Successfully generated type definitions.'']\<rparr>"
  have q: "getAnemosToolVersion_try legacy_host ctx0 start =
             Some (Inl (new_Error ''Command failed: anemos --version''), ?q)"
    by (simp add: legacy_host_version_try start_def)
  have l: "emit (ConsoleLog (''Error getting anemos version: '' @
                   error_toString (new_Error ''Command failed: anemos --version''))) ?q = ?a"
    by (simp add: emit_def error_toString_def new_Error_def start_def)
  have n: "needsUpdate legacy_host ''unknown'' ?a = (True, ?b)"
    by (rule needsUpdate_absent) (simp add: start_def)
  have g: "generateAnemosTypes legacy_host ctx0 (typesDir legacy_host) ?b = Some (Inr (), ?c)"
    by (simp add: host_generate(2) settle_idle)
  have s: "toISOString_now legacy_host u = stamp" for u
    by (simp add: legacy_host_def host_def)
  have f: "fst (fs_writeFileSync legacy_host ?vp
                 (JSON_stringify legacy_host (versionRecord ''unknown'' stamp)) ?c) = Inr ()"
    by (simp add: fs_writeFileSync_def Let_def start_def) (simp add: legacy_host_def host_def)
  from failed_version_query_continues_as_unknown[OF q, where ?w2.0 = ?b and ?w3.0 = ?c]
  have "getAnemosToolVersion legacy_host ctx0 start = Some (Inr ''unknown'', ?a)"
    and "ensureTypesAreUpToDate legacy_host ctx0 start =
           Some (Inr (),
                 ?c\<lparr>fs := (fs ?c)(?vp \<mapsto> File (JSON_stringify legacy_host (versionRecord ''unknown'' stamp))),
                     trace := trace ?c @
                       [WriteFileSync ?vp (JSON_stringify legacy_host (versionRecord ''unknown'' stamp)),
                        ConsoleLog ''Updated version file to unknown'',
                        ExecuteCommand ''typescript.restartTsServer'']\<rparr>)"
    unfolding l s using n g f by blast+
  with q show ?thesis
    by simp
qed

end
